theory Spec2Isabelle
  imports Complex_Main "HOL-Library.Word"
begin

section \<open>JavaScript values\<close>

text \<open>
  A JavaScript string is a sequence of UTF-16 code units: \<open>length\<close> and
  \<open>substring\<close> count code units, and the check mark of the confirmation texts
  (U+2713) is the single unit \<open>0x2713\<close>. The literals of the source are ASCII
  apart from that mark; \<open>js\<close> turns an ASCII literal into its code units.
\<close>

type_synonym jsstring = "16 word list"

definition js :: "string \<Rightarrow> jsstring" where
  "js s = map of_char s"

text \<open>
  The values that cross the tool boundary and the backend boundary are JSON values.
  An object is the list of its properties in insertion order, with distinct keys. A
  property that is absent (\<open>undefined\<close> in the source) is \<open>None\<close> at the place
  that reads it; \<open>undefined\<close> is not a JSON value.
\<close>

datatype json =
    JNull
  | JBool bool
  | JNum real
  | JStr jsstring
  | JArr "json list"
  | JObj "(jsstring \<times> json) list"

type_synonym payload = "(jsstring \<times> json) list"

text \<open>The assignment \<open>obj.k = v\<close>: an existing property keeps its place, a new one goes last.\<close>

fun set_prop :: "payload \<Rightarrow> jsstring \<Rightarrow> json \<Rightarrow> payload" where
  "set_prop [] k v = [(k, v)]"
| "set_prop ((k', v') # ps) k v =
     (if k' = k then (k, v) # ps else (k', v') # set_prop ps k v)"

text \<open>
  \<open>if (x)\<close> on an optional string: \<open>undefined\<close> and the empty string are falsy.
  On an optional array or object only \<open>undefined\<close> is falsy, which is \<open>x \<noteq> None\<close>.
\<close>

fun truthy_string :: "jsstring option \<Rightarrow> bool" where
  "truthy_string None = False"
| "truthy_string (Some s) = (s \<noteq> [])"

section \<open>The filter schema (part\_001, \<open>filterSchema\<close>)\<close>

datatype operator =
  Op_eq | Op_neq | Op_contains | Op_startswith | Op_endswith | Op_in | Op_not_in

datatype filter_kind = Native_field | Custom_metadata

datatype filter_value = Scalar jsstring | Sequence "jsstring list"

record skald_filter =
  f_field :: jsstring
  f_operator :: operator
  f_value :: filter_value
  f_filter_type :: filter_kind

fun operator_name :: "operator \<Rightarrow> string" where
  "operator_name Op_eq = ''eq''"
| "operator_name Op_neq = ''neq''"
| "operator_name Op_contains = ''contains''"
| "operator_name Op_startswith = ''startswith''"
| "operator_name Op_endswith = ''endswith''"
| "operator_name Op_in = ''in''"
| "operator_name Op_not_in = ''not_in''"

fun filter_kind_name :: "filter_kind \<Rightarrow> string" where
  "filter_kind_name Native_field = ''native_field''"
| "filter_kind_name Custom_metadata = ''custom_metadata''"

fun filter_value_json :: "filter_value \<Rightarrow> json" where
  "filter_value_json (Scalar s) = JStr s"
| "filter_value_json (Sequence xs) = JArr (map JStr xs)"

text \<open>A validated filter as the object the schema parser hands to the handler.\<close>

definition filter_json :: "skald_filter \<Rightarrow> json" where
  "filter_json f = JObj
     [(js ''field'', JStr (f_field f)),
      (js ''operator'', JStr (js (operator_name (f_operator f)))),
      (js ''value'', filter_value_json (f_value f)),
      (js ''filter_type'', JStr (js (filter_kind_name (f_filter_type f))))]"

definition filters_json :: "skald_filter list \<Rightarrow> json" where
  "filters_json fs = JArr (map filter_json fs)"

definition tags_json :: "jsstring list \<Rightarrow> json" where
  "tags_json ts = JArr (map JStr ts)"

section \<open>Validated arguments and request shapers\<close>

text \<open>
  Each record is the \<open>args\<close> object a handler receives after its schema has accepted
  the call: a required parameter is a value, an optional one is \<open>None\<close> when the
  caller left it out.
\<close>

subsection \<open>skald-chat\<close>

record chat_args =
  chat_query :: jsstring
  chat_project_id :: "jsstring option"
  chat_filters :: "skald_filter list option"

text \<open>part\_001, lines 73-79.\<close>

definition chatParams :: "chat_args \<Rightarrow> payload" where
  "chatParams args =
     (let p = [(js ''query'', JStr (chat_query args))];
          p = (if truthy_string (chat_project_id args)
               then set_prop p (js ''project_id'') (JStr (the (chat_project_id args))) else p);
          p = (if chat_filters args \<noteq> None
               then set_prop p (js ''filters'') (filters_json (the (chat_filters args))) else p)
      in p)"

record chat_args_index =
  ichat_query :: jsstring
  ichat_project_id :: "jsstring option"

text \<open>index.ts, lines 42-45.\<close>

definition chatParams_index :: "chat_args_index \<Rightarrow> payload" where
  "chatParams_index args =
     (let p = [(js ''query'', JStr (ichat_query args))];
          p = (if truthy_string (ichat_project_id args)
               then set_prop p (js ''project_id'') (JStr (the (ichat_project_id args))) else p)
      in p)"

subsection \<open>skald-search\<close>

record search_args =
  search_query :: jsstring
  search_method :: jsstring
  search_limit :: real
  search_filters :: "skald_filter list option"

text \<open>part\_001, lines 125-132.\<close>

definition searchParams :: "search_args \<Rightarrow> payload" where
  "searchParams args =
     (let p = [(js ''query'', JStr (search_query args)),
               (js ''search_method'', JStr (search_method args)),
               (js ''limit'', JNum (search_limit args))];
          p = (if search_filters args \<noteq> None
               then set_prop p (js ''filters'') (filters_json (the (search_filters args))) else p)
      in p)"

record search_args_index =
  isearch_query :: jsstring
  isearch_method :: jsstring
  isearch_limit :: real
  isearch_tags :: "jsstring list option"

text \<open>index.ts, lines 91-101.\<close>

definition searchParams_index :: "search_args_index \<Rightarrow> payload" where
  "searchParams_index args =
     (let p = [(js ''query'', JStr (isearch_query args)),
               (js ''search_method'', JStr (isearch_method args)),
               (js ''limit'', JNum (isearch_limit args))];
          p = (if isearch_tags args \<noteq> None
               then set_prop p (js ''tags'') (tags_json (the (isearch_tags args))) else p)
      in p)"

subsection \<open>skald-create-memo\<close>

record create_args =
  create_title :: jsstring
  create_content :: jsstring
  create_project_id :: "jsstring option"
  create_metadata :: "(jsstring \<times> json) list option"
  create_reference_id :: "jsstring option"
  create_tags :: "jsstring list option"
  create_source :: "jsstring option"

text \<open>
  part\_001, lines 208-218; index.ts, lines 177-187, has the same statements word for
  word, so one definition stands for both.
\<close>

definition memoData :: "create_args \<Rightarrow> payload" where
  "memoData args =
     (let p = [(js ''title'', JStr (create_title args)),
               (js ''content'', JStr (create_content args))];
          p = (if truthy_string (create_project_id args)
               then set_prop p (js ''project_id'') (JStr (the (create_project_id args))) else p);
          p = (if create_metadata args \<noteq> None
               then set_prop p (js ''metadata'') (JObj (the (create_metadata args))) else p);
          p = (if truthy_string (create_reference_id args)
               then set_prop p (js ''reference_id'') (JStr (the (create_reference_id args))) else p);
          p = (if create_tags args \<noteq> None
               then set_prop p (js ''tags'') (tags_json (the (create_tags args))) else p);
          p = (if truthy_string (create_source args)
               then set_prop p (js ''source'') (JStr (the (create_source args))) else p)
      in p)"

subsection \<open>skald-update-memo\<close>

datatype id_type = Memo_uuid | Reference_id

record update_args =
  update_memo_id :: jsstring
  update_id_type :: id_type
  update_title :: "jsstring option"
  update_content :: "jsstring option"
  update_metadata :: "(jsstring \<times> json) list option"
  update_client_reference_id :: "jsstring option"
  update_source :: "jsstring option"
  update_expiration_date :: "jsstring option"

text \<open>part\_001, lines 328-338: every test is \<open>!== undefined\<close>.\<close>

definition updateData :: "update_args \<Rightarrow> payload" where
  "updateData args =
     (let p = [];
          p = (if update_title args \<noteq> None
               then set_prop p (js ''title'') (JStr (the (update_title args))) else p);
          p = (if update_content args \<noteq> None
               then set_prop p (js ''content'') (JStr (the (update_content args))) else p);
          p = (if update_metadata args \<noteq> None
               then set_prop p (js ''metadata'') (JObj (the (update_metadata args))) else p);
          p = (if update_client_reference_id args \<noteq> None
               then set_prop p (js ''client_reference_id'')
                      (JStr (the (update_client_reference_id args))) else p);
          p = (if update_source args \<noteq> None
               then set_prop p (js ''source'') (JStr (the (update_source args))) else p);
          p = (if update_expiration_date args \<noteq> None
               then set_prop p (js ''expiration_date'')
                      (JStr (the (update_expiration_date args))) else p)
      in p)"

section \<open>Text helpers\<close>

text \<open>\<open>Array.prototype.join\<close> on strings.\<close>

fun join :: "jsstring \<Rightarrow> jsstring list \<Rightarrow> jsstring" where
  "join sep [] = []"
| "join sep [x] = x"
| "join sep (x # y # ys) = x @ sep @ join sep (y # ys)"

text \<open>The decimal digits of a natural number, as a template literal prints a length or an index.\<close>

definition digit :: "nat \<Rightarrow> 16 word" where
  "digit d = of_nat (48 + d)"

function decimal :: "nat \<Rightarrow> jsstring" where
  "decimal n = (if n < 10 then [digit n] else decimal (n div 10) @ [digit (n mod 10)])"
  by pat_completeness auto
termination
  by (relation "measure id") auto

declare decimal.simps [simp del]

text \<open>
  An integer-valued number in a template literal. \<open>Number::toString\<close> prints a
  safe integer (at most \<open>2^53 - 1\<close> in absolute value) with all its digits;
  beyond that it prints the shortest digits that round-trip, and exponent notation
  from \<open>10^21\<close> on, which depends on the binary representation: there the
  printer is the parameter \<open>to_string\<close>.
\<close>

definition show_int :: "(real \<Rightarrow> jsstring) \<Rightarrow> int \<Rightarrow> jsstring" where
  "show_int to_string i =
     (if \<bar>i\<bar> \<le> 9007199254740991
      then (if i < 0 then js ''-'' @ decimal (nat (- i)) else decimal (nat i))
      else to_string (of_int i))"

text \<open>\<open>x || d\<close> on an optional string \<open>x\<close>.\<close>

definition or_else :: "jsstring option \<Rightarrow> jsstring \<Rightarrow> jsstring" where
  "or_else x d = (if truthy_string x then the x else d)"

definition nl :: jsstring where
  "nl = [10]"

text \<open>
  \<open>Number.prototype.toFixed(f)\<close> as ECMAScript defines it, on the exact value of the
  number: the sign is split off; \<open>n\<close> is the integer nearest to \<open>x * 10^f\<close>, the
  larger one on a tie; its digits are padded with zeros to \<open>f + 1\<close> places and the
  point goes before the last \<open>f\<close>. From \<open>10^21\<close> on the method returns what
  \<open>Number::toString\<close> prints (exponent notation, which depends on the binary
  representation); that function is the parameter \<open>to_string\<close>.
\<close>

definition toFixed :: "(real \<Rightarrow> jsstring) \<Rightarrow> nat \<Rightarrow> real \<Rightarrow> jsstring" where
  "toFixed to_string f x0 =
     (let s = (if x0 < 0 then js ''-'' else []);
          x = \<bar>x0\<bar>
      in if x \<ge> 10 ^ 21 then s @ to_string x
         else
           (let n = nat \<lfloor>x * 10 ^ f + 1 / 2\<rfloor>;
                m = decimal n;
                m = (if f \<noteq> 0
                     then (let m = (if length m \<le> f
                                    then replicate (f + 1 - length m) (digit 0) @ m else m);
                               k = length m
                           in take (k - f) m @ js ''.'' @ drop (k - f) m)
                     else m)
            in s @ m))"

section \<open>Backend calls and tool runs\<close>

text \<open>
  A value caught by \<open>catch (error)\<close>, as the handlers observe it: either an instance
  of \<open>Error\<close>, with its \<open>message\<close>, or any other value, with what
  \<open>String(error)\<close> returns for it.
\<close>

datatype thrown = Error_instance jsstring | Non_error jsstring

text \<open>\<open>error instanceof Error ? error.message : String(error)\<close>\<close>

fun errorMessage :: "thrown \<Rightarrow> jsstring" where
  "errorMessage (Error_instance message) = message"
| "errorMessage (Non_error string_of) = string_of"

text \<open>The calls a handler makes on the client, in order, with their arguments.\<close>

datatype backend_call =
    Chat payload
  | Search payload
  | Create_memo payload
  | Get_memo jsstring id_type
  | Update_memo jsstring payload id_type
  | Delete_memo jsstring id_type

datatype path_elem = Key string | Index nat

datatype issue_code = Invalid_type | Invalid_enum_value | Too_small | Too_big | Invalid_union

type_synonym issue = "path_elem list \<times> issue_code"

text \<open>
  What a tool call ends in: the text block the handler returns, the \<open>Error\<close> it
  throws (its message), or the rejection of the arguments by the schema, before the
  handler runs.
\<close>

datatype tool_result = Text jsstring | Tool_error jsstring | Rejected "issue list"

record run =
  outcome :: tool_result
  backend_calls :: "backend_call list"
  trace :: "jsstring list"

subsection \<open>skald-chat\<close>

text \<open>
  part\_001, lines 69-98. The client's \<open>chat\<close> resolves to the answer text, or to
  nothing (\<open>None\<close>), or throws.
\<close>

definition skald_chat :: "(payload \<Rightarrow> thrown + jsstring option) \<Rightarrow> chat_args \<Rightarrow> run" where
  "skald_chat chat args =
     (let params = chatParams args
      in \<lparr>outcome =
            (case chat params of
               Inr response \<Rightarrow> Text (or_else response (js ''No response received''))
             | Inl error \<Rightarrow>
                 Tool_error (js ''Failed to get response from Skald chat: '' @ errorMessage error)),
          backend_calls = [Chat params],
          trace = [js ''Debug - Asking Skald chat: '' @ chat_query args]\<rparr>)"

text \<open>
  index.ts, lines 38-64: here \<open>chat\<close> resolves to an object and the text is its
  \<open>response\<close> property.
\<close>

record chat_response =
  response :: "jsstring option"

definition skald_chat_index ::
    "(payload \<Rightarrow> thrown + chat_response) \<Rightarrow> chat_args_index \<Rightarrow> run" where
  "skald_chat_index chat args =
     (let params = chatParams_index args
      in \<lparr>outcome =
            (case chat params of
               Inr r \<Rightarrow> Text (or_else (response r) (js ''No response received''))
             | Inl error \<Rightarrow>
                 Tool_error (js ''Failed to get response from Skald chat: '' @ errorMessage error)),
          backend_calls = [Chat params],
          trace = [js ''Debug - Asking Skald chat: '' @ ichat_query args]\<rparr>)"

subsection \<open>skald-search\<close>

text \<open>
  One entry of \<open>response.results\<close>. The handler types it \<open>any\<close>: the distance is
  whatever the backend sent under that key, \<open>None\<close> when the key is absent.
\<close>

record search_result =
  r_title :: jsstring
  r_uuid :: jsstring
  r_summary :: jsstring
  r_content_snippet :: jsstring
  r_distance :: "json option"

text \<open>
  The callback of \<open>response.results.map\<close> (part\_001, lines 140-155; index.ts, lines
  109-124). The guard is \<open>result.distance !== null\<close>; past it,
  \<open>result.distance.toFixed(4)\<close> is a method call on a number, a \<open>TypeError\<close> on
  \<open>undefined\<close> (no property can be read) and a \<open>TypeError\<close> on any other value
  (it has no \<open>toFixed\<close>). The messages are Node's.
\<close>

definition format_result ::
    "(real \<Rightarrow> jsstring) \<Rightarrow> nat \<Rightarrow> search_result \<Rightarrow> thrown + jsstring" where
  "format_result to_string idx result =
     (let parts =
            [decimal (idx + 1) @ js ''. '' @ r_title result,
             js ''   UUID: '' @ r_uuid result,
             js ''   Summary: '' @ r_summary result,
             js ''   Snippet: '' @ r_content_snippet result]
      in case r_distance result of
           Some JNull \<Rightarrow> Inr (join nl parts)
         | Some (JNum d) \<Rightarrow>
             Inr (join nl (parts @
               [js ''   Distance: '' @ toFixed to_string 4 d @ js '' (lower is more relevant)'']))
         | None \<Rightarrow>
             Inl (Error_instance
               (js ''Cannot read properties of undefined (reading 'toFixed')''))
         | Some _ \<Rightarrow>
             Inl (Error_instance (js ''result.distance.toFixed is not a function'')))"

text \<open>
  The distances the data model of a search result allows: a number, or \<open>null\<close>.
\<close>

fun number_or_null :: "json option \<Rightarrow> bool" where
  "number_or_null (Some (JNum d)) = True"
| "number_or_null (Some JNull) = True"
| "number_or_null _ = False"

text \<open>\<open>map\<close> calls the callback on the results in order; the first throw ends it.\<close>

fun map_results ::
    "(real \<Rightarrow> jsstring) \<Rightarrow> nat \<Rightarrow> search_result list \<Rightarrow> thrown + jsstring list" where
  "map_results to_string idx [] = Inr []"
| "map_results to_string idx (r # rs) =
     (case format_result to_string idx r of
        Inl e \<Rightarrow> Inl e
      | Inr block \<Rightarrow>
          (case map_results to_string (Suc idx) rs of
             Inl e \<Rightarrow> Inl e
           | Inr blocks \<Rightarrow> Inr (block # blocks)))"

text \<open>The text of the search tool: \<open>resultText\<close> under the count line.\<close>

definition resultText :: "(real \<Rightarrow> jsstring) \<Rightarrow> search_result list \<Rightarrow> thrown + jsstring" where
  "resultText to_string results =
     (if length results > 0
      then (case map_results to_string 0 results of
              Inl e \<Rightarrow> Inl e
            | Inr blocks \<Rightarrow> Inr (join (nl @ nl) blocks))
      else Inr (js ''No results found''))"

definition search_text :: "(real \<Rightarrow> jsstring) \<Rightarrow> search_result list \<Rightarrow> thrown + jsstring" where
  "search_text to_string results =
     (case resultText to_string results of
        Inl e \<Rightarrow> Inl e
      | Inr t \<Rightarrow>
          Inr (js ''Found '' @ decimal (length results) @ js '' result(s):'' @ nl @ nl @ t))"

text \<open>
  The part of both search handlers after the call (part\_001, lines 134-171; index.ts,
  lines 103-140): everything is inside the \<open>try\<close>, so a throw of the client and a
  throw of the formatter end in the same \<open>catch\<close>.
\<close>

definition search_outcome ::
    "(real \<Rightarrow> jsstring) \<Rightarrow> thrown + search_result list \<Rightarrow> tool_result" where
  "search_outcome to_string r =
     (case (case r of Inl e \<Rightarrow> Inl e | Inr results \<Rightarrow> search_text to_string results) of
        Inr t \<Rightarrow> Text t
      | Inl error \<Rightarrow> Tool_error (js ''Failed to search Skald memos: '' @ errorMessage error))"

definition skald_search ::
    "(real \<Rightarrow> jsstring) \<Rightarrow> (payload \<Rightarrow> thrown + search_result list) \<Rightarrow> search_args \<Rightarrow> run" where
  "skald_search to_string search args =
     (let params = searchParams args
      in \<lparr>outcome = search_outcome to_string (search params),
          backend_calls = [Search params],
          trace = [js ''Debug - Searching Skald memos: '' @ search_query args]\<rparr>)"

definition skald_search_index ::
    "(real \<Rightarrow> jsstring) \<Rightarrow> (payload \<Rightarrow> thrown + search_result list) \<Rightarrow>
       search_args_index \<Rightarrow> run" where
  "skald_search_index to_string search args =
     (let params = searchParams_index args
      in \<lparr>outcome = search_outcome to_string (search params),
          backend_calls = [Search params],
          trace = [js ''Debug - Searching Skald memos: '' @ isearch_query args]\<rparr>)"

subsection \<open>skald-create-memo\<close>

definition check_mark :: "16 word" where
  "check_mark = 0x2713"

text \<open>
  part\_001, lines 204-237, and index.ts, lines 173-206, which is the same text. The
  client's \<open>createMemo\<close> resolves to an object with the flag \<open>ok\<close>, or throws.
\<close>

definition skald_create_memo :: "(payload \<Rightarrow> thrown + bool) \<Rightarrow> create_args \<Rightarrow> run" where
  \<open>skald_create_memo createMemo args =
     (let data = memoData args
      in \<lparr>outcome =
            (case createMemo data of
               Inr ok \<Rightarrow>
                 Text (if ok
                       then check_mark # js '' Memo "'' @ create_title args
                              @ js ''" created successfully!''
                       else js ''Failed to create memo'')
             | Inl error \<Rightarrow>
                 Tool_error (js ''Failed to create Skald memo: '' @ errorMessage error)),
          backend_calls = [Create_memo data],
          trace = [js ''Debug - Creating Skald memo: '' @ create_title args]\<rparr>)\<close>

subsection \<open>skald-get-memo\<close>

record memo_tag =
  tag :: jsstring

record chunk =
  chunk_index :: int
  chunk_content :: jsstring

record memo =
  m_uuid :: jsstring
  m_title :: jsstring
  m_content :: jsstring
  m_summary :: jsstring
  m_tags :: "memo_tag list"
  m_client_reference_id :: "jsstring option"
  m_source :: "jsstring option"
  m_type :: jsstring
  m_created_at :: jsstring
  m_updated_at :: jsstring
  m_chunks :: "chunk list"

record get_args =
  get_memo_id :: jsstring
  get_id_type :: id_type

text \<open>part\_001, line 260.\<close>

definition tagsText :: "memo \<Rightarrow> jsstring" where
  "tagsText m = join (js '', '') (map tag (m_tags m))"

text \<open>part\_001, lines 261-263; \<open>substring(0, 100)\<close> keeps the first 100 code units.\<close>

definition chunk_line :: "(real \<Rightarrow> jsstring) \<Rightarrow> chunk \<Rightarrow> jsstring" where
  "chunk_line to_string c =
     js ''Chunk '' @ show_int to_string (chunk_index c) @ js '': ''
       @ take 100 (chunk_content c) @ js ''...''"

definition chunksText :: "(real \<Rightarrow> jsstring) \<Rightarrow> memo \<Rightarrow> jsstring" where
  "chunksText to_string m = join nl (map (chunk_line to_string) (m_chunks m))"

text \<open>part\_001, lines 269-284; \<open>filter(Boolean)\<close> drops the empty strings.\<close>

definition memo_lines :: "(real \<Rightarrow> jsstring) \<Rightarrow> memo \<Rightarrow> jsstring list" where
  "memo_lines to_string m =
     [js ''Memo: '' @ m_title m,
      js ''UUID: '' @ m_uuid m,
      js ''Created: '' @ m_created_at m,
      js ''Updated: '' @ m_updated_at m,
      js ''Summary: '' @ m_summary m,
      js ''Content: '' @ m_content m,
      js ''Tags: '' @ (if tagsText m \<noteq> [] then tagsText m else js ''None''),
      js ''Client Reference ID: '' @ or_else (m_client_reference_id m) (js ''None''),
      js ''Source: '' @ or_else (m_source m) (js ''None''),
      js ''Type: '' @ m_type m,
      js ''Chunks: '' @ decimal (length (m_chunks m)),
      (if chunksText to_string m \<noteq> [] then nl @ chunksText to_string m else [])]"

definition memo_text :: "(real \<Rightarrow> jsstring) \<Rightarrow> memo \<Rightarrow> jsstring" where
  "memo_text to_string m =
     join nl (filter (\<lambda>line. line \<noteq> []) (memo_lines to_string m))"

text \<open>part\_001, lines 254-293.\<close>

definition skald_get_memo ::
    "(real \<Rightarrow> jsstring) \<Rightarrow> (jsstring \<Rightarrow> id_type \<Rightarrow> thrown + memo) \<Rightarrow>
       get_args \<Rightarrow> run" where
  "skald_get_memo to_string getMemo args =
     \<lparr>outcome =
        (case getMemo (get_memo_id args) (get_id_type args) of
           Inr m \<Rightarrow> Text (memo_text to_string m)
         | Inl error \<Rightarrow> Tool_error (js ''Failed to get Skald memo: '' @ errorMessage error)),
      backend_calls = [Get_memo (get_memo_id args) (get_id_type args)],
      trace = [js ''Debug - Getting Skald memo: '' @ get_memo_id args]\<rparr>"

subsection \<open>skald-update-memo\<close>

text \<open>part\_001, lines 324-361.\<close>

definition skald_update_memo ::
    "(jsstring \<Rightarrow> payload \<Rightarrow> id_type \<Rightarrow> thrown + bool) \<Rightarrow> update_args \<Rightarrow> run" where
  \<open>skald_update_memo updateMemo args =
     (let data = updateData args
      in \<lparr>outcome =
            (case updateMemo (update_memo_id args) data (update_id_type args) of
               Inr ok \<Rightarrow>
                 Text (if ok
                       then check_mark # js '' Memo "'' @ update_memo_id args
                              @ js ''" updated successfully!''
                       else js ''Failed to update memo'')
             | Inl error \<Rightarrow>
                 Tool_error (js ''Failed to update Skald memo: '' @ errorMessage error)),
          backend_calls = [Update_memo (update_memo_id args) data (update_id_type args)],
          trace = [js ''Debug - Updating Skald memo: '' @ update_memo_id args]\<rparr>)\<close>

subsection \<open>skald-delete-memo\<close>

record delete_args =
  delete_memo_id :: jsstring
  delete_id_type :: id_type

text \<open>
  part\_001, lines 378-397. The value \<open>deleteMemo\<close> resolves to is awaited and
  dropped, whatever it is.
\<close>

definition skald_delete_memo ::
    "(jsstring \<Rightarrow> id_type \<Rightarrow> thrown + 'r) \<Rightarrow> delete_args \<Rightarrow> run" where
  \<open>skald_delete_memo deleteMemo args =
     \<lparr>outcome =
        (case deleteMemo (delete_memo_id args) (delete_id_type args) of
           Inr _ \<Rightarrow>
             Text (check_mark # js '' Memo "'' @ delete_memo_id args
                     @ js ''" deleted successfully!'')
         | Inl error \<Rightarrow>
             Tool_error (js ''Failed to delete Skald memo: '' @ errorMessage error)),
      backend_calls = [Delete_memo (delete_memo_id args) (delete_id_type args)],
      trace = [js ''Debug - Deleting Skald memo: '' @ delete_memo_id args]\<rparr>\<close>

section \<open>Schemas and registration\<close>

text \<open>
  The schemas are written with zod. A zod parser reads the value found under a key,
  \<open>None\<close> when the key is absent, and returns the parsed value or the issues it
  found; an object parser runs all its fields and gathers their issues.

  The server parses asynchronously. A parser reports its issues while it runs, except
  a union, which reports once its alternatives have settled: after every parser that
  reports directly. So the issues come in two lists, those reported directly and
  those deferred, each in the order of the parsers; the issues of a rejected call are
  the first list followed by the second.
\<close>

type_synonym findings = "issue list \<times> issue list"

fun issues :: "findings + 'a \<Rightarrow> findings" where
  "issues (Inl found) = found"
| "issues (Inr _) = ([], [])"

fun both :: "findings \<Rightarrow> findings \<Rightarrow> findings" where
  "both (direct, deferred) (direct', deferred') = (direct @ direct', deferred @ deferred')"

definition at_path :: "path_elem \<Rightarrow> findings + 'a \<Rightarrow> findings + 'a" where
  "at_path k r =
     (case r of
        Inl (direct, deferred) \<Rightarrow>
          Inl (map (\<lambda>(p, c). (k # p, c)) direct, map (\<lambda>(p, c). (k # p, c)) deferred)
      | Inr v \<Rightarrow> Inr v)"

text \<open>\<open>z.string()\<close>\<close>

fun z_string :: "json option \<Rightarrow> findings + jsstring" where
  "z_string (Some (JStr s)) = Inr s"
| "z_string _ = Inl ([([], Invalid_type)], [])"

text \<open>\<open>z.enum([...])\<close>, with the value each member stands for in this development.\<close>

fun z_enum :: "(string \<times> 'a) list \<Rightarrow> json option \<Rightarrow> findings + 'a" where
  "z_enum members (Some (JStr s)) =
     (case map_of (map (\<lambda>(name, v). (js name, v)) members) s of
        Some v \<Rightarrow> Inr v
      | None \<Rightarrow> Inl ([([], Invalid_enum_value)], []))"
| "z_enum members _ = Inl ([([], Invalid_type)], [])"

text \<open>\<open>z.number().min(lo).max(hi)\<close>: both bounds are inclusive.\<close>

fun z_number_min_max :: "real \<Rightarrow> real \<Rightarrow> json option \<Rightarrow> findings + real" where
  "z_number_min_max lo hi (Some (JNum x)) =
     (let found = (if x < lo then [([], Too_small)] else [])
                @ (if x > hi then [([], Too_big)] else [])
      in if found = [] then Inr x else Inl (found, []))"
| "z_number_min_max lo hi _ = Inl ([([], Invalid_type)], [])"

text \<open>
  \<open>inner.optional().default(d)\<close>: an absent value is replaced by \<open>d\<close> before the
  inner schema runs, so the \<open>optional()\<close> under the default never meets an absent
  value and the result is always a value of the inner schema.
\<close>

definition z_default ::
    "json \<Rightarrow> (json option \<Rightarrow> findings + 'a) \<Rightarrow> json option \<Rightarrow> findings + 'a" where
  "z_default d inner v = inner (Some (case v of None \<Rightarrow> d | Some x \<Rightarrow> x))"

text \<open>\<open>inner.optional()\<close>\<close>

definition z_optional ::
    "(json option \<Rightarrow> findings + 'a) \<Rightarrow> json option \<Rightarrow> findings + 'a option" where
  "z_optional inner v =
     (case v of
        None \<Rightarrow> Inr None
      | Some x \<Rightarrow> (case inner (Some x) of Inl found \<Rightarrow> Inl found | Inr y \<Rightarrow> Inr (Some y)))"

text \<open>\<open>z.array(inner)\<close>\<close>

fun z_items :: "(json option \<Rightarrow> findings + 'a) \<Rightarrow> nat \<Rightarrow> json list \<Rightarrow> findings + 'a list" where
  "z_items inner i [] = Inr []"
| "z_items inner i (x # xs) =
     (case (at_path (Index i) (inner (Some x)), z_items inner (Suc i) xs) of
        (Inr y, Inr ys) \<Rightarrow> Inr (y # ys)
      | (a, b) \<Rightarrow> Inl (both (issues a) (issues b)))"

fun z_array :: "(json option \<Rightarrow> findings + 'a) \<Rightarrow> json option \<Rightarrow> findings + 'a list" where
  "z_array inner (Some (JArr xs)) = z_items inner 0 xs"
| "z_array inner _ = Inl ([([], Invalid_type)], [])"

text \<open>part\_001, lines 28-53.\<close>

definition operators :: "(string \<times> operator) list" where
  "operators =
     [(''eq'', Op_eq), (''neq'', Op_neq), (''contains'', Op_contains),
      (''startswith'', Op_startswith), (''endswith'', Op_endswith),
      (''in'', Op_in), (''not_in'', Op_not_in)]"

definition filter_kinds :: "(string \<times> filter_kind) list" where
  "filter_kinds = [(''native_field'', Native_field), (''custom_metadata'', Custom_metadata)]"

text \<open>
  \<open>z.union([z.string(), z.array(z.string())])\<close>: the issues of the alternatives
  are kept inside the union's own issue, which is deferred.
\<close>

definition z_filter_value :: "json option \<Rightarrow> findings + filter_value" where
  "z_filter_value v =
     (case z_string v of
        Inr s \<Rightarrow> Inr (Scalar s)
      | Inl _ \<Rightarrow>
          (case z_array z_string v of
             Inr xs \<Rightarrow> Inr (Sequence xs)
           | Inl _ \<Rightarrow> Inl ([], [([], Invalid_union)])))"

fun filter_object :: "json option \<Rightarrow> findings + skald_filter" where
  "filter_object (Some (JObj props)) =
     (let fi = at_path (Key ''field'') (z_string (map_of props (js ''field'')));
          op = at_path (Key ''operator'') (z_enum operators (map_of props (js ''operator'')));
          va = at_path (Key ''value'') (z_filter_value (map_of props (js ''value'')));
          ft = at_path (Key ''filter_type'')
                 (z_enum filter_kinds (map_of props (js ''filter_type'')))
      in case (fi, op, va, ft) of
           (Inr a, Inr b, Inr c, Inr d) \<Rightarrow>
             Inr \<lparr>f_field = a, f_operator = b, f_value = c, f_filter_type = d\<rparr>
         | _ \<Rightarrow> Inl (both (issues fi) (both (issues op) (both (issues va) (issues ft)))))"
| "filter_object _ = Inl ([([], Invalid_type)], [])"

definition filterSchema :: "json option \<Rightarrow> findings + skald_filter list option" where
  "filterSchema = z_optional (z_array filter_object)"

text \<open>The schema of skald-search in part\_001, lines 105-120.\<close>

definition search_methods :: "(string \<times> jsstring) list" where
  "search_methods = [(''chunk_semantic_search'', js ''chunk_semantic_search'')]"

fun search_schema :: "json \<Rightarrow> findings + search_args" where
  "search_schema (JObj props) =
     (let q = at_path (Key ''query'') (z_string (map_of props (js ''query'')));
          m = at_path (Key ''search_method'')
                (z_enum search_methods (map_of props (js ''search_method'')));
          l = at_path (Key ''limit'')
                (z_default (JNum 10) (z_number_min_max 1 50) (map_of props (js ''limit'')));
          f = at_path (Key ''filters'') (filterSchema (map_of props (js ''filters'')))
      in case (q, m, l, f) of
           (Inr a, Inr b, Inr c, Inr d) \<Rightarrow>
             Inr \<lparr>search_query = a, search_method = b, search_limit = c, search_filters = d\<rparr>
         | _ \<Rightarrow> Inl (both (issues q) (both (issues m) (both (issues l) (issues f)))))"
| "search_schema _ = Inl ([([], Invalid_type)], [])"

text \<open>The schema of skald-search in index.ts, lines 71-86.\<close>

definition search_methods_index :: "(string \<times> jsstring) list" where
  "search_methods_index =
     [(''chunk_vector_search'', js ''chunk_vector_search''),
      (''title_contains'', js ''title_contains''),
      (''title_startswith'', js ''title_startswith'')]"

fun search_schema_index :: "json \<Rightarrow> findings + search_args_index" where
  "search_schema_index (JObj props) =
     (let q = at_path (Key ''query'') (z_string (map_of props (js ''query'')));
          m = at_path (Key ''search_method'')
                (z_enum search_methods_index (map_of props (js ''search_method'')));
          l = at_path (Key ''limit'')
                (z_default (JNum 10) (z_number_min_max 1 50) (map_of props (js ''limit'')));
          t = at_path (Key ''tags'') (z_optional (z_array z_string) (map_of props (js ''tags'')))
      in case (q, m, l, t) of
           (Inr a, Inr b, Inr c, Inr d) \<Rightarrow>
             Inr \<lparr>isearch_query = a, isearch_method = b, isearch_limit = c, isearch_tags = d\<rparr>
         | _ \<Rightarrow> Inl (both (issues q) (both (issues m) (both (issues l) (issues t)))))"
| "search_schema_index _ = Inl ([([], Invalid_type)], [])"

text \<open>
  A tool registered with \<open>server.tool(name, description, schema, handler)\<close>: the
  server parses the arguments of a call with the schema and runs the handler on the
  parsed arguments; when the schema finds issues the call is rejected with them, the
  direct ones before the deferred ones, and the handler does not run.
\<close>

definition run_tool ::
    "(json \<Rightarrow> findings + 'a) \<Rightarrow> ('a \<Rightarrow> run) \<Rightarrow> json \<Rightarrow> run" where
  "run_tool schema handler arguments =
     (case schema arguments of
        Inl (direct, deferred) \<Rightarrow>
          \<lparr>outcome = Rejected (direct @ deferred), backend_calls = [], trace = []\<rparr>
      | Inr args \<Rightarrow> handler args)"

definition skald_search_tool ::
    "(real \<Rightarrow> jsstring) \<Rightarrow> (payload \<Rightarrow> thrown + search_result list) \<Rightarrow> json \<Rightarrow> run" where
  "skald_search_tool to_string search =
     run_tool search_schema (skald_search to_string search)"

definition skald_search_tool_index ::
    "(real \<Rightarrow> jsstring) \<Rightarrow> (payload \<Rightarrow> thrown + search_result list) \<Rightarrow> json \<Rightarrow> run" where
  "skald_search_tool_index to_string search =
     run_tool search_schema_index (skald_search_index to_string search)"

text \<open>
  The names under which \<open>server.tool\<close> is called, in the order of the calls: in
  part\_001 (lines 57, 103, 177, 242, 298, 366) and in index.ts (lines 29, 69, 146).
\<close>

definition registered_tools :: "string list" where
  "registered_tools =
     [''skald-chat'', ''skald-search'', ''skald-create-memo'',
      ''skald-get-memo'', ''skald-update-memo'', ''skald-delete-memo'']"

definition registered_tools_index :: "string list" where
  "registered_tools_index = [''skald-chat'', ''skald-search'', ''skald-create-memo'']"

section \<open>Facts about strings and payloads\<close>

lemma unat_of_char: "unat (of_char c :: 16 word) = of_char c"
proof -
  have "(of_char c :: nat) < 256"
    by (rule nat_of_char_less_256)
  moreover have "(256 :: nat) < 2 ^ 16"
    by simp
  ultimately have "(of_char c :: nat) < 2 ^ 16"
    by (rule less_trans)
  then have "unat (of_nat (of_char c) :: 16 word) = of_char c"
    by (simp add: of_nat_inverse)
  then show ?thesis
    by (simp add: of_nat_of_char)
qed

lemma of_char_word_eq_iff: "(of_char c :: 16 word) = of_char d \<longleftrightarrow> c = d"
proof
  assume "(of_char c :: 16 word) = of_char d"
  then have "unat (of_char c :: 16 word) = unat (of_char d :: 16 word)"
    by simp
  then show "c = d"
    by (simp add: unat_of_char)
qed simp

lemma js_eq_iff [simp]: "js a = js b \<longleftrightarrow> a = b"
proof -
  have "inj (of_char :: char \<Rightarrow> 16 word)"
    by (rule injI) (simp add: of_char_word_eq_iff)
  then show ?thesis
    by (simp add: js_def)
qed

lemma js_Nil [simp]: "js [] = []"
  by (simp add: js_def)

lemma js_eq_Nil [simp]: "js s = [] \<longleftrightarrow> s = []"
  by (simp add: js_def)

section \<open>skald-update-memo with the title alone\<close>

text \<open>
  C3. For skald-update-memo, an invocation that provides memo\_id and title and omits
  every other optional field sends an update payload that holds the title key and
  none of content, metadata, client\_reference\_id, source and expiration\_date: the
  handler calls the client's \<open>updateMemo\<close> once, with the memo id, the payload
  whose single property is the title given, and the id type.
\<close>

theorem update_title_only:
  assumes "update_title args = Some t"
    and "update_content args = None"
    and "update_metadata args = None"
    and "update_client_reference_id args = None"
    and "update_source args = None"
    and "update_expiration_date args = None"
  shows "backend_calls (skald_update_memo updateMemo args)
      = [Update_memo (update_memo_id args) [(js ''title'', JStr t)] (update_id_type args)]
    \<and> updateData args = [(js ''title'', JStr t)]
    \<and> map fst (updateData args) = [js ''title'']
    \<and> js ''content'' \<notin> set (map fst (updateData args))
    \<and> js ''metadata'' \<notin> set (map fst (updateData args))
    \<and> js ''client_reference_id'' \<notin> set (map fst (updateData args))
    \<and> js ''source'' \<notin> set (map fst (updateData args))
    \<and> js ''expiration_date'' \<notin> set (map fst (updateData args))"
proof -
  have payload: "updateData args = [(js ''title'', JStr t)]"
    using assms by (simp add: updateData_def)
  have "backend_calls (skald_update_memo updateMemo args)
      = [Update_memo (update_memo_id args) (updateData args) (update_id_type args)]"
    by (simp add: skald_update_memo_def Let_def)
  then show ?thesis
    by (simp add: payload)
qed

theorem update_title_only_witness:
  "backend_calls (skald_update_memo (\<lambda>i p t. Inr True)
      \<lparr>update_memo_id = js ''m-1'', update_id_type = Memo_uuid,
       update_title = Some (js ''New title''), update_content = None,
       update_metadata = None, update_client_reference_id = None,
       update_source = None, update_expiration_date = None\<rparr>)
     = [Update_memo (js ''m-1'') [(js ''title'', JStr (js ''New title''))] Memo_uuid]
   \<and> updateData \<lparr>update_memo_id = js ''m-1'', update_id_type = Memo_uuid,
       update_title = Some (js ''New title''), update_content = None,
       update_metadata = None, update_client_reference_id = None,
       update_source = None, update_expiration_date = None\<rparr>
     = [(js ''title'', JStr (js ''New title''))]"
  using update_title_only [of "\<lparr>update_memo_id = js ''m-1'', update_id_type = Memo_uuid,
       update_title = Some (js ''New title''), update_content = None,
       update_metadata = None, update_client_reference_id = None,
       update_source = None, update_expiration_date = None\<rparr>" "js ''New title''"
      "\<lambda>i p t. Inr True"]
  by simp

lemma js_literal_append: "js a @ js b = js (a @ b)"
  by (simp add: js_def)

section \<open>Registration\<close>

text \<open>
  C2, as the code has it. The extended tool surface (part\_001) registers exactly six
  tools, under the names skald-chat, skald-search, skald-create-memo, skald-get-memo,
  skald-update-memo and skald-delete-memo, each name once; they include the three
  tools of index.ts. No tool is registered under the name skald-generate.
\<close>

theorem registered_tools_names:
  "registered_tools =
     [''skald-chat'', ''skald-search'', ''skald-create-memo'',
      ''skald-get-memo'', ''skald-update-memo'', ''skald-delete-memo'']
   \<and> length registered_tools = 6
   \<and> distinct registered_tools
   \<and> set registered_tools_index \<subseteq> set registered_tools
   \<and> ''skald-generate'' \<notin> set registered_tools"
  by (simp add: registered_tools_def registered_tools_index_def)

text \<open>
  C2 as stated fails on the code: the registered names are not the seven names of the
  claim, and skald-generate is not among them.
\<close>

theorem registered_tools_counterexample:
  "registered_tools \<noteq>
     [''skald-chat'', ''skald-search'', ''skald-create-memo'', ''skald-get-memo'',
      ''skald-update-memo'', ''skald-delete-memo'', ''skald-generate'']
   \<and> length registered_tools \<noteq> 7
   \<and> ''skald-generate'' \<notin> set registered_tools"
  by (simp add: registered_tools_def)

section \<open>Failures of the backend\<close>

text \<open>
  C5. When the backend call of skald-chat throws, in either version of the tool, the
  tool throws an error whose text is the prefix
  \<open>Failed to get response from Skald chat: \<close> followed by the message of the
  thrown \<open>Error\<close>, or by the string conversion of the thrown value when it is not
  an \<open>Error\<close>; the client was called once, with the shaped parameters, and not
  again.
\<close>

theorem chat_backend_failure:
  "(chat (chatParams args) = Inl error \<longrightarrow>
      outcome (skald_chat chat args)
        = Tool_error (js ''Failed to get response from Skald chat: '' @ errorMessage error))
   \<and> (chat_index (chatParams_index args_index) = Inl error \<longrightarrow>
      outcome (skald_chat_index chat_index args_index)
        = Tool_error (js ''Failed to get response from Skald chat: '' @ errorMessage error))
   \<and> errorMessage (Error_instance message) = message
   \<and> errorMessage (Non_error string_of) = string_of
   \<and> backend_calls (skald_chat chat args) = [Chat (chatParams args)]
   \<and> backend_calls (skald_chat_index chat_index args_index)
        = [Chat (chatParams_index args_index)]"
  by (simp add: skald_chat_def skald_chat_index_def Let_def)

theorem chat_backend_failure_witness:
  "outcome (skald_chat (\<lambda>p. Inl (Error_instance (js ''network timeout'')))
       \<lparr>chat_query = js ''q'', chat_project_id = None, chat_filters = None\<rparr>)
     = Tool_error (js ''Failed to get response from Skald chat: network timeout'')
   \<and> outcome (skald_chat_index (\<lambda>p. Inl (Error_instance (js ''network timeout'')))
       \<lparr>ichat_query = js ''q'', ichat_project_id = None\<rparr>)
     = Tool_error (js ''Failed to get response from Skald chat: network timeout'')"
  using chat_backend_failure [of "\<lambda>p. Inl (Error_instance (js ''network timeout''))"
      "\<lparr>chat_query = js ''q'', chat_project_id = None, chat_filters = None\<rparr>"
      "Error_instance (js ''network timeout'')"
      "\<lambda>p. Inl (Error_instance (js ''network timeout''))"
      "\<lparr>ichat_query = js ''q'', ichat_project_id = None\<rparr>"]
  by (simp add: js_literal_append)

section \<open>Confirmation texts\<close>

text \<open>
  C7. For skald-create-memo, when the backend resolves with the flag ok set, the text
  is the check mark, \<open> Memo "\<close>, the title and \<open>" created successfully!\<close>, so for
  the title \<open>API Reference\<close> it is the check mark followed by
  \<open> Memo "API Reference" created successfully!\<close>; when the backend resolves with
  the flag not set, the tool returns the text \<open>Failed to create memo\<close> as its text
  block and throws nothing.
\<close>

theorem create_memo_text:
  \<open>(createMemo (memoData args) = Inr True \<longrightarrow>
      outcome (skald_create_memo createMemo args)
        = Text (check_mark # js '' Memo "'' @ create_title args @ js ''" created successfully!''))
   \<and> (createMemo (memoData args) = Inr True \<and> create_title args = js ''API Reference'' \<longrightarrow>
      outcome (skald_create_memo createMemo args)
        = Text (check_mark # js '' Memo "API Reference" created successfully!''))
   \<and> (createMemo (memoData args) = Inr False \<longrightarrow>
      outcome (skald_create_memo createMemo args) = Text (js ''Failed to create memo''))\<close>
  by (simp add: skald_create_memo_def Let_def js_literal_append)

theorem create_memo_text_witness:
  \<open>outcome (skald_create_memo (\<lambda>p. Inr True)
       \<lparr>create_title = js ''API Reference'', create_content = js ''GET /memos'',
        create_project_id = None, create_metadata = None, create_reference_id = None,
        create_tags = None, create_source = None\<rparr>)
     = Text (check_mark # js '' Memo "API Reference" created successfully!'')
   \<and> outcome (skald_create_memo (\<lambda>p. Inr False)
       \<lparr>create_title = js ''API Reference'', create_content = js ''GET /memos'',
        create_project_id = None, create_metadata = None, create_reference_id = None,
        create_tags = None, create_source = None\<rparr>)
     = Text (js ''Failed to create memo'')\<close>
  using create_memo_text [of "\<lambda>p. Inr True"
      "\<lparr>create_title = js ''API Reference'', create_content = js ''GET /memos'',
        create_project_id = None, create_metadata = None, create_reference_id = None,
        create_tags = None, create_source = None\<rparr>"]
    create_memo_text [of "\<lambda>p. Inr False"
      "\<lparr>create_title = js ''API Reference'', create_content = js ''GET /memos'',
        create_project_id = None, create_metadata = None, create_reference_id = None,
        create_tags = None, create_source = None\<rparr>"]
  by (simp add: js_literal_append)

text \<open>
  C10. For skald-delete-memo, whenever the backend's \<open>deleteMemo\<close> resolves, to
  whatever value, the tool returns the check mark followed by
  \<open> Memo "<memo_id>" deleted successfully!\<close>. The handler has no branch that
  formats a failure: every text it returns is that confirmation, and its only other
  outcome is the error thrown again under the prefix
  \<open>Failed to delete Skald memo: \<close> after the backend threw.
\<close>

theorem delete_memo_outcomes:
  \<open>(deleteMemo (delete_memo_id args) (delete_id_type args) = Inr r \<longrightarrow>
      outcome (skald_delete_memo deleteMemo args)
        = Text (check_mark # js '' Memo "'' @ delete_memo_id args @ js ''" deleted successfully!''))
   \<and> (\<forall>t. outcome (skald_delete_memo deleteMemo args) = Text t \<longrightarrow>
      t = check_mark # js '' Memo "'' @ delete_memo_id args @ js ''" deleted successfully!'')
   \<and> (\<forall>e. outcome (skald_delete_memo deleteMemo args) = Tool_error e \<longrightarrow>
      (\<exists>error. deleteMemo (delete_memo_id args) (delete_id_type args) = Inl error
         \<and> e = js ''Failed to delete Skald memo: '' @ errorMessage error))
   \<and> (\<forall>found. outcome (skald_delete_memo deleteMemo args) \<noteq> Rejected found)\<close>
  by (auto simp add: skald_delete_memo_def split: sum.splits)

theorem delete_memo_outcomes_witness:
  \<open>outcome (skald_delete_memo (\<lambda>i t. Inr False)
       \<lparr>delete_memo_id = js ''m-1'', delete_id_type = Memo_uuid\<rparr>)
     = Text (check_mark # js '' Memo "m-1" deleted successfully!'')\<close>
  using delete_memo_outcomes [of "\<lambda>i t. Inr False"
      "\<lparr>delete_memo_id = js ''m-1'', delete_id_type = Memo_uuid\<rparr>" False, THEN conjunct1]
  by (simp add: js_literal_append)

section \<open>Validation of skald-search\<close>

lemma at_path_Inr_iff [simp]: "at_path k r = Inr v \<longleftrightarrow> r = Inr v"
  by (cases r) (simp_all add: at_path_def split: prod.splits)

lemma z_enum_Inr:
  "z_enum members v = Inr x \<Longrightarrow> \<exists>name. v = Some (JStr (js name)) \<and> (name, x) \<in> set members"
proof (cases v)
  case None
  assume "z_enum members v = Inr x"
  with None show ?thesis by simp
next
  case (Some j)
  assume a: "z_enum members v = Inr x"
  show ?thesis
  proof (cases j)
    case (JStr s)
    with a Some have "map_of (map (\<lambda>(name, v). (js name, v)) members) s = Some x"
      by (simp split: option.splits)
    then have "(s, x) \<in> set (map (\<lambda>(name, v). (js name, v)) members)"
      by (rule map_of_SomeD)
    then obtain name where "s = js name" "(name, x) \<in> set members"
      by auto
    with Some JStr show ?thesis by auto
  qed (use a Some in simp_all)
qed

lemma z_number_min_max_Inr:
  "z_number_min_max lo hi v = Inr x \<Longrightarrow> v = Some (JNum x) \<and> lo \<le> x \<and> x \<le> hi"
proof (cases v)
  case None
  assume "z_number_min_max lo hi v = Inr x"
  with None show ?thesis by simp
next
  case (Some j)
  assume a: "z_number_min_max lo hi v = Inr x"
  show ?thesis
    by (cases j) (use a Some in \<open>auto simp: Let_def split: if_splits\<close>)
qed

lemma search_schema_Inr:
  assumes "search_schema (JObj props) = Inr args"
  shows "z_string (map_of props (js ''query'')) = Inr (search_query args)
    \<and> z_enum search_methods (map_of props (js ''search_method'')) = Inr (search_method args)
    \<and> z_default (JNum 10) (z_number_min_max 1 50) (map_of props (js ''limit''))
        = Inr (search_limit args)
    \<and> filterSchema (map_of props (js ''filters'')) = Inr (search_filters args)"
  using assms by (auto simp: Let_def split: sum.splits)

lemma search_schema_index_Inr:
  assumes "search_schema_index (JObj props) = Inr args"
  shows "z_string (map_of props (js ''query'')) = Inr (isearch_query args)
    \<and> z_enum search_methods_index (map_of props (js ''search_method''))
        = Inr (isearch_method args)
    \<and> z_default (JNum 10) (z_number_min_max 1 50) (map_of props (js ''limit''))
        = Inr (isearch_limit args)
    \<and> z_optional (z_array z_string) (map_of props (js ''tags'')) = Inr (isearch_tags args)"
  using assms by (auto simp: Let_def split: sum.splits)

lemma run_tool_rejected:
  "(\<And>args. schema arguments \<noteq> Inr args) \<Longrightarrow>
     (\<exists>found. outcome (run_tool schema handler arguments) = Rejected found)
     \<and> backend_calls (run_tool schema handler arguments) = []"
  by (cases "schema arguments") (auto simp: run_tool_def)

lemma run_tool_accepted:
  "schema arguments = Inr args \<Longrightarrow> run_tool schema handler arguments = handler args"
  by (simp add: run_tool_def)

lemma search_method_member:
  assumes "search_schema (JObj props) = Inr args"
  shows "map_of props (js ''search_method'') = Some (JStr (js ''chunk_semantic_search''))"
  using search_schema_Inr [OF assms] z_enum_Inr [of search_methods "map_of props (js ''search_method'')" "search_method args"]
  by (auto simp: search_methods_def)

lemma search_method_index_member:
  assumes "search_schema_index (JObj props) = Inr args"
  shows "map_of props (js ''search_method'') \<in>
    {Some (JStr (js ''chunk_vector_search'')), Some (JStr (js ''title_contains'')),
     Some (JStr (js ''title_startswith''))}"
  using search_schema_index_Inr [OF assms] z_enum_Inr [of search_methods_index "map_of props (js ''search_method'')" "isearch_method args"]
  by (auto simp: search_methods_index_def)

lemma search_limit_bounds:
  assumes "search_schema (JObj props) = Inr args"
  shows "(map_of props (js ''limit'') = None \<and> search_limit args = 10)
    \<or> (map_of props (js ''limit'') = Some (JNum (search_limit args))
         \<and> 1 \<le> search_limit args \<and> search_limit args \<le> 50)"
  using search_schema_Inr [OF assms]
    z_number_min_max_Inr [of 1 50 "Some (case map_of props (js ''limit'') of None \<Rightarrow> JNum 10 | Some x \<Rightarrow> x)" "search_limit args"]
  by (auto simp: z_default_def split: option.splits)

lemma search_limit_index_bounds:
  assumes "search_schema_index (JObj props) = Inr args"
  shows "(map_of props (js ''limit'') = None \<and> isearch_limit args = 10)
    \<or> (map_of props (js ''limit'') = Some (JNum (isearch_limit args))
         \<and> 1 \<le> isearch_limit args \<and> isearch_limit args \<le> 50)"
  using search_schema_index_Inr [OF assms]
    z_number_min_max_Inr [of 1 50 "Some (case map_of props (js ''limit'') of None \<Rightarrow> JNum 10 | Some x \<Rightarrow> x)" "isearch_limit args"]
  by (auto simp: z_default_def split: option.splits)



lemma search_tool_rejected:
  assumes "\<And>args. search_schema arguments \<noteq> Inr args"
  shows "(\<exists>found. outcome (skald_search_tool ts search arguments) = Rejected found)
    \<and> backend_calls (skald_search_tool ts search arguments) = []"
  unfolding skald_search_tool_def using assms by (rule run_tool_rejected)

lemma search_tool_index_rejected:
  assumes "\<And>args. search_schema_index arguments \<noteq> Inr args"
  shows "(\<exists>found. outcome (skald_search_tool_index ts search arguments) = Rejected found)
    \<and> backend_calls (skald_search_tool_index ts search arguments) = []"
  unfolding skald_search_tool_index_def using assms by (rule run_tool_rejected)

lemma method_rejected:
  assumes "map_of props (js ''search_method'') = Some v"
    and "v \<noteq> JStr (js ''chunk_semantic_search'')"
  shows "search_schema (JObj props) \<noteq> Inr args"
proof
  assume "search_schema (JObj props) = Inr args"
  then have "map_of props (js ''search_method'') = Some (JStr (js ''chunk_semantic_search''))"
    by (rule search_method_member)
  with assms show False by simp
qed

lemma method_index_rejected:
  assumes "map_of props (js ''search_method'') = Some v"
    and "v \<notin> {JStr (js ''chunk_vector_search''), JStr (js ''title_contains''),
               JStr (js ''title_startswith'')}"
  shows "search_schema_index (JObj props) \<noteq> Inr args"
proof
  assume "search_schema_index (JObj props) = Inr args"
  then have "map_of props (js ''search_method'') \<in>
    {Some (JStr (js ''chunk_vector_search'')), Some (JStr (js ''title_contains'')),
     Some (JStr (js ''title_startswith''))}"
    by (rule search_method_index_member)
  with assms show False by auto
qed

lemma limit_rejected:
  assumes "map_of props (js ''limit'') = Some (JNum x)" and "x < 1 \<or> 50 < x"
  shows "search_schema (JObj props) \<noteq> Inr args"
proof
  assume "search_schema (JObj props) = Inr args"
  then have "(map_of props (js ''limit'') = None \<and> search_limit args = 10)
    \<or> (map_of props (js ''limit'') = Some (JNum (search_limit args))
         \<and> 1 \<le> search_limit args \<and> search_limit args \<le> 50)"
    by (rule search_limit_bounds)
  with assms show False by auto
qed

lemma limit_index_rejected:
  assumes "map_of props (js ''limit'') = Some (JNum x)" and "x < 1 \<or> 50 < x"
  shows "search_schema_index (JObj props) \<noteq> Inr args"
proof
  assume "search_schema_index (JObj props) = Inr args"
  then have "(map_of props (js ''limit'') = None \<and> isearch_limit args = 10)
    \<or> (map_of props (js ''limit'') = Some (JNum (isearch_limit args))
         \<and> 1 \<le> isearch_limit args \<and> isearch_limit args \<le> 50)"
    by (rule search_limit_index_bounds)
  with assms show False by auto
qed

lemma limit_default:
  assumes "map_of props (js ''limit'') = None" and "search_schema (JObj props) = Inr args"
  shows "search_limit args = 10"
  using search_limit_bounds [OF assms(2)] assms(1) by simp

lemma limit_index_default:
  assumes "map_of props (js ''limit'') = None" and "search_schema_index (JObj props) = Inr args"
  shows "isearch_limit args = 10"
  using search_limit_index_bounds [OF assms(2)] assms(1) by simp

lemma searchParams_limit: "map_of (searchParams args) (js ''limit'') = Some (JNum (search_limit args))"
  by (simp add: searchParams_def Let_def)

lemma searchParams_index_limit:
  "map_of (searchParams_index args) (js ''limit'') = Some (JNum (isearch_limit args))"
  by (simp add: searchParams_index_def Let_def)


text \<open>
  C4. For skald-search, in both versions of the tool, a call whose search\_method is
  not a member of the declared enumeration, and a call whose limit is a number below
  1 or above 50, are rejected by the schema: the outcome is a rejection and no call
  reaches the backend. When the limit is left out and the schema accepts the call,
  the validated arguments carry the limit 10, and that is the limit the handler
  forwards.
\<close>

theorem search_validation:
  "(map_of props (js ''search_method'') = Some v \<and> v \<noteq> JStr (js ''chunk_semantic_search'') \<longrightarrow>
      (\<exists>found. outcome (skald_search_tool ts search (JObj props)) = Rejected found)
      \<and> backend_calls (skald_search_tool ts search (JObj props)) = [])
   \<and> (map_of props (js ''search_method'') = Some v
       \<and> v \<notin> {JStr (js ''chunk_vector_search''), JStr (js ''title_contains''),
               JStr (js ''title_startswith'')} \<longrightarrow>
      (\<exists>found. outcome (skald_search_tool_index ts search (JObj props)) = Rejected found)
      \<and> backend_calls (skald_search_tool_index ts search (JObj props)) = [])
   \<and> (map_of props (js ''limit'') = Some (JNum x) \<and> (x < 1 \<or> 50 < x) \<longrightarrow>
      ((\<exists>found. outcome (skald_search_tool ts search (JObj props)) = Rejected found)
       \<and> backend_calls (skald_search_tool ts search (JObj props)) = [])
      \<and> ((\<exists>found. outcome (skald_search_tool_index ts search (JObj props)) = Rejected found)
       \<and> backend_calls (skald_search_tool_index ts search (JObj props)) = []))
   \<and> (map_of props (js ''limit'') = None \<and> search_schema (JObj props) = Inr args \<longrightarrow>
      search_limit args = 10
      \<and> skald_search_tool ts search (JObj props) = skald_search ts search args
      \<and> map_of (searchParams args) (js ''limit'') = Some (JNum 10))
   \<and> (map_of props (js ''limit'') = None \<and> search_schema_index (JObj props) = Inr args_index \<longrightarrow>
      isearch_limit args_index = 10
      \<and> skald_search_tool_index ts search (JObj props) = skald_search_index ts search args_index
      \<and> map_of (searchParams_index args_index) (js ''limit'') = Some (JNum 10))"
proof -
  have 1: "(\<exists>found. outcome (skald_search_tool ts search (JObj props)) = Rejected found)
      \<and> backend_calls (skald_search_tool ts search (JObj props)) = []"
    if "map_of props (js ''search_method'') = Some v \<and> v \<noteq> JStr (js ''chunk_semantic_search'')"
    by (rule search_tool_rejected, rule method_rejected) (use that in blast)+
  have 2: "(\<exists>found. outcome (skald_search_tool_index ts search (JObj props)) = Rejected found)
      \<and> backend_calls (skald_search_tool_index ts search (JObj props)) = []"
    if "map_of props (js ''search_method'') = Some v
       \<and> v \<notin> {JStr (js ''chunk_vector_search''), JStr (js ''title_contains''),
               JStr (js ''title_startswith'')}"
    by (rule search_tool_index_rejected, rule method_index_rejected) (use that in blast)+
  have 3: "(\<exists>found. outcome (skald_search_tool ts search (JObj props)) = Rejected found)
      \<and> backend_calls (skald_search_tool ts search (JObj props)) = []"
    if "map_of props (js ''limit'') = Some (JNum x) \<and> (x < 1 \<or> 50 < x)"
    by (rule search_tool_rejected, rule limit_rejected) (use that in blast)+
  have 4: "(\<exists>found. outcome (skald_search_tool_index ts search (JObj props)) = Rejected found)
      \<and> backend_calls (skald_search_tool_index ts search (JObj props)) = []"
    if "map_of props (js ''limit'') = Some (JNum x) \<and> (x < 1 \<or> 50 < x)"
    by (rule search_tool_index_rejected, rule limit_index_rejected) (use that in blast)+
  have 5: "search_limit args = 10
      \<and> skald_search_tool ts search (JObj props) = skald_search ts search args
      \<and> map_of (searchParams args) (js ''limit'') = Some (JNum 10)"
    if h: "map_of props (js ''limit'') = None \<and> search_schema (JObj props) = Inr args"
  proof -
    have l: "search_limit args = 10"
      using h limit_default by blast
    have "skald_search_tool ts search (JObj props) = skald_search ts search args"
      unfolding skald_search_tool_def using h [THEN conjunct2] by (rule run_tool_accepted)
    moreover have "map_of (searchParams args) (js ''limit'') = Some (JNum 10)"
      using l by (simp only: searchParams_limit)
    ultimately show ?thesis using l by blast
  qed
  have 6: "isearch_limit args_index = 10
      \<and> skald_search_tool_index ts search (JObj props) = skald_search_index ts search args_index
      \<and> map_of (searchParams_index args_index) (js ''limit'') = Some (JNum 10)"
    if h: "map_of props (js ''limit'') = None \<and> search_schema_index (JObj props) = Inr args_index"
  proof -
    have l: "isearch_limit args_index = 10"
      using h limit_index_default by blast
    have "skald_search_tool_index ts search (JObj props) = skald_search_index ts search args_index"
      unfolding skald_search_tool_index_def using h [THEN conjunct2] by (rule run_tool_accepted)
    moreover have "map_of (searchParams_index args_index) (js ''limit'') = Some (JNum 10)"
      using l by (simp only: searchParams_index_limit)
    ultimately show ?thesis using l by blast
  qed
  have c1: "map_of props (js ''search_method'') = Some v
       \<and> v \<noteq> JStr (js ''chunk_semantic_search'') \<longrightarrow>
      (\<exists>found. outcome (skald_search_tool ts search (JObj props)) = Rejected found)
      \<and> backend_calls (skald_search_tool ts search (JObj props)) = []"
    by (rule impI) (erule 1)
  have c2: "map_of props (js ''search_method'') = Some v
       \<and> v \<notin> {JStr (js ''chunk_vector_search''), JStr (js ''title_contains''),
               JStr (js ''title_startswith'')} \<longrightarrow>
      (\<exists>found. outcome (skald_search_tool_index ts search (JObj props)) = Rejected found)
      \<and> backend_calls (skald_search_tool_index ts search (JObj props)) = []"
    by (rule impI) (erule 2)
  have c5: "map_of props (js ''limit'') = None \<and> search_schema (JObj props) = Inr args \<longrightarrow>
      search_limit args = 10
      \<and> skald_search_tool ts search (JObj props) = skald_search ts search args
      \<and> map_of (searchParams args) (js ''limit'') = Some (JNum 10)"
    by (rule impI) (erule 5)
  have c6: "map_of props (js ''limit'') = None
       \<and> search_schema_index (JObj props) = Inr args_index \<longrightarrow>
      isearch_limit args_index = 10
      \<and> skald_search_tool_index ts search (JObj props) = skald_search_index ts search args_index
      \<and> map_of (searchParams_index args_index) (js ''limit'') = Some (JNum 10)"
    by (rule impI) (erule 6)
  have c34: "map_of props (js ''limit'') = Some (JNum x) \<and> (x < 1 \<or> 50 < x) \<longrightarrow>
      ((\<exists>found. outcome (skald_search_tool ts search (JObj props)) = Rejected found)
       \<and> backend_calls (skald_search_tool ts search (JObj props)) = [])
      \<and> ((\<exists>found. outcome (skald_search_tool_index ts search (JObj props)) = Rejected found)
       \<and> backend_calls (skald_search_tool_index ts search (JObj props)) = [])"
    by (rule impI, rule conjI) (erule 3, erule 4)
  show ?thesis
    by (rule conjI [OF c1 conjI [OF c2 conjI [OF c34 conjI [OF c5 c6]]]])
qed


theorem search_validation_witness:
  "(\<exists>found. outcome (skald_search_tool (\<lambda>x. []) (\<lambda>p. Inr [])
        (JObj [(js ''query'', JStr (js ''docs'')),
               (js ''search_method'', JStr (js ''title_contains''))])) = Rejected found)
   \<and> backend_calls (skald_search_tool (\<lambda>x. []) (\<lambda>p. Inr [])
        (JObj [(js ''query'', JStr (js ''docs'')),
               (js ''search_method'', JStr (js ''title_contains''))])) = []
   \<and> (\<exists>found. outcome (skald_search_tool_index (\<lambda>x. []) (\<lambda>p. Inr [])
        (JObj [(js ''query'', JStr (js ''docs'')),
               (js ''search_method'', JStr (js ''chunk_semantic_search''))])) = Rejected found)
   \<and> (\<exists>found. outcome (skald_search_tool (\<lambda>x. []) (\<lambda>p. Inr [])
        (JObj [(js ''query'', JStr (js ''docs'')),
               (js ''search_method'', JStr (js ''chunk_semantic_search'')),
               (js ''limit'', JNum 51)])) = Rejected found)
   \<and> (\<exists>found. outcome (skald_search_tool_index (\<lambda>x. []) (\<lambda>p. Inr [])
        (JObj [(js ''query'', JStr (js ''docs'')),
               (js ''search_method'', JStr (js ''title_contains'')),
               (js ''limit'', JNum (1 / 2))])) = Rejected found)
   \<and> backend_calls (skald_search_tool (\<lambda>x. []) (\<lambda>p. Inr [])
        (JObj [(js ''query'', JStr (js ''docs'')),
               (js ''search_method'', JStr (js ''chunk_semantic_search''))]))
      = [Search [(js ''query'', JStr (js ''docs'')),
                 (js ''search_method'', JStr (js ''chunk_semantic_search'')),
                 (js ''limit'', JNum 10)]]
   \<and> backend_calls (skald_search_tool_index (\<lambda>x. []) (\<lambda>p. Inr [])
        (JObj [(js ''query'', JStr (js ''docs'')),
               (js ''search_method'', JStr (js ''title_contains''))]))
      = [Search [(js ''query'', JStr (js ''docs'')),
                 (js ''search_method'', JStr (js ''title_contains'')),
                 (js ''limit'', JNum 10)]]"
proof -
  let ?ts = "\<lambda>x::real. ([] :: jsstring)"
  let ?be = "\<lambda>p::payload. (Inr [] :: thrown + search_result list)"
  let ?q = "(js ''query'', JStr (js ''docs''))"
  let ?sem = "(js ''search_method'', JStr (js ''chunk_semantic_search''))"
  let ?tc = "(js ''search_method'', JStr (js ''title_contains''))"
  let ?args = "\<lparr>search_query = js ''docs'', search_method = js ''chunk_semantic_search'',
        search_limit = 10, search_filters = None\<rparr>"
  let ?iargs = "\<lparr>isearch_query = js ''docs'', isearch_method = js ''title_contains'',
        isearch_limit = 10, isearch_tags = None\<rparr>"
  have h1: "map_of [?q, ?tc] (js ''search_method'') = Some (JStr (js ''title_contains''))
      \<and> JStr (js ''title_contains'') \<noteq> JStr (js ''chunk_semantic_search'')"
    by simp
  have h2: "map_of [?q, ?sem] (js ''search_method'') = Some (JStr (js ''chunk_semantic_search''))
      \<and> JStr (js ''chunk_semantic_search'')
          \<notin> {JStr (js ''chunk_vector_search''), JStr (js ''title_contains''),
              JStr (js ''title_startswith'')}"
    by simp
  have h3: "map_of [?q, ?sem, (js ''limit'', JNum 51)] (js ''limit'') = Some (JNum 51)
      \<and> ((51 :: real) < 1 \<or> 50 < (51 :: real))"
    by simp
  have h4: "map_of [?q, ?tc, (js ''limit'', JNum (1 / 2))] (js ''limit'') = Some (JNum (1 / 2))
      \<and> ((1 / 2 :: real) < 1 \<or> 50 < (1 / 2 :: real))"
    by simp
  have h5: "map_of [?q, ?sem] (js ''limit'') = None \<and> search_schema (JObj [?q, ?sem]) = Inr ?args"
    by (simp add: search_methods_def z_default_def filterSchema_def z_optional_def at_path_def Let_def)
  have h6: "map_of [?q, ?tc] (js ''limit'') = None
      \<and> search_schema_index (JObj [?q, ?tc]) = Inr ?iargs"
    by (simp add: search_methods_index_def z_default_def z_optional_def at_path_def Let_def)
  note r1 = search_validation [where props = "[?q, ?tc]" and ts = ?ts and search = ?be,
      THEN conjunct1, THEN mp, OF h1]
  note r2 = search_validation [where props = "[?q, ?sem]" and ts = ?ts and search = ?be,
      THEN conjunct2, THEN conjunct1, THEN mp, OF h2]
  note r3 = search_validation [where props = "[?q, ?sem, (js ''limit'', JNum 51)]"
      and ts = ?ts and search = ?be,
      THEN conjunct2, THEN conjunct2, THEN conjunct1, THEN mp, OF h3]
  note r4 = search_validation [where props = "[?q, ?tc, (js ''limit'', JNum (1 / 2))]"
      and ts = ?ts and search = ?be,
      THEN conjunct2, THEN conjunct2, THEN conjunct1, THEN mp, OF h4]
  note r5 = search_validation [where props = "[?q, ?sem]" and ts = ?ts and search = ?be,
      THEN conjunct2, THEN conjunct2, THEN conjunct2, THEN conjunct1, THEN mp, OF h5]
  note r6 = search_validation [where props = "[?q, ?tc]" and ts = ?ts and search = ?be,
      THEN conjunct2, THEN conjunct2, THEN conjunct2, THEN conjunct2, THEN mp, OF h6]
  have 6: "backend_calls (skald_search_tool ?ts ?be (JObj [?q, ?sem]))
      = [Search [?q, ?sem, (js ''limit'', JNum 10)]]"
    by (simp add: r5 [THEN conjunct2, THEN conjunct1] skald_search_def searchParams_def Let_def)
  have 7: "backend_calls (skald_search_tool_index ?ts ?be (JObj [?q, ?tc]))
      = [Search [?q, ?tc, (js ''limit'', JNum 10)]]"
    by (simp add: r6 [THEN conjunct2, THEN conjunct1] skald_search_index_def
        searchParams_index_def Let_def)
  show ?thesis
    by (rule conjI [OF r1 [THEN conjunct1] conjI [OF r1 [THEN conjunct2]
        conjI [OF r2 [THEN conjunct1] conjI [OF r3 [THEN conjunct1, THEN conjunct1]
        conjI [OF r4 [THEN conjunct2, THEN conjunct1] conjI [OF 6 7]]]]]])
qed

section \<open>The distance line of skald-search\<close>












lemma nearest_double_0_12345:
  "(2223877495995551 / 18014398509481984 :: real) = 8895509983982204 / 2 ^ 56
   \<and> (2 :: real) ^ 52 \<le> 8895509983982204 \<and> (8895509983982204 :: real) < 2 ^ 53
   \<and> \<bar>(8895509983982204 / 2 ^ 56 :: real) - 12345 / 100000\<bar> \<le> 1 / 2 ^ 57"
  by simp







section \<open>Totality of the search formatter\<close>

lemma format_result_Inr_iff:
  "(\<exists>block. format_result ts idx r = Inr block) \<longleftrightarrow> number_or_null (r_distance r)"
proof (cases "r_distance r")
  case None
  then show ?thesis by (simp add: format_result_def Let_def)
next
  case (Some j)
  then show ?thesis by (cases j) (simp_all add: format_result_def Let_def)
qed

lemma format_result_Inl:
  assumes "format_result ts idx r = Inl e"
  shows "\<exists>message. e = Error_instance message"
proof (cases "r_distance r")
  case None
  with assms show ?thesis by (auto simp add: format_result_def Let_def)
next
  case (Some j)
  with assms show ?thesis by (cases j) (auto simp add: format_result_def Let_def)
qed

lemma map_results_Inr_iff:
  "(\<exists>blocks. map_results ts idx rs = Inr blocks) \<longleftrightarrow> (\<forall>r\<in>set rs. number_or_null (r_distance r))"
proof (induction rs arbitrary: idx)
  case Nil
  show ?case by simp
next
  case (Cons r rs)
  show ?case
  proof (cases "format_result ts idx r")
    case (Inl e)
    then have "\<not> number_or_null (r_distance r)"
      using format_result_Inr_iff [of ts idx r] by simp
    with Inl show ?thesis by simp
  next
    case (Inr block)
    then have n: "number_or_null (r_distance r)"
      using format_result_Inr_iff [of ts idx r] by simp
    show ?thesis
    proof (cases "map_results ts (Suc idx) rs")
      case (Inl e)
      then have "\<not> (\<forall>r\<in>set rs. number_or_null (r_distance r))"
        using Cons.IH [of "Suc idx"] by simp
      with Inl Inr show ?thesis by simp
    next
      case r: (Inr blocks)
      then have "\<forall>r\<in>set rs. number_or_null (r_distance r)"
        using Cons.IH [of "Suc idx"] by simp
      with r Inr n show ?thesis by simp
    qed
  qed
qed

lemma map_results_Inl:
  "map_results ts idx rs = Inl e \<Longrightarrow> \<exists>message. e = Error_instance message"
proof (induction rs arbitrary: idx)
  case Nil
  then show ?case by simp
next
  case (Cons r rs)
  show ?case
  proof (cases "format_result ts idx r")
    case (Inl e')
    with Cons.prems have "e' = e" by simp
    with Inl show ?thesis using format_result_Inl by blast
  next
    case (Inr block)
    with Cons.prems have "map_results ts (Suc idx) rs = Inl e"
      by (simp split: sum.splits)
    then show ?thesis by (rule Cons.IH)
  qed
qed

lemma search_text_Inr_iff:
  "(\<exists>t. search_text ts results = Inr t) \<longleftrightarrow> (\<forall>r\<in>set results. number_or_null (r_distance r))"
proof (cases results)
  case Nil
  then show ?thesis by (simp add: search_text_def resultText_def)
next
  case (Cons r rs)
  have "(\<exists>t. search_text ts results = Inr t) \<longleftrightarrow> (\<exists>blocks. map_results ts 0 results = Inr blocks)"
    using Cons by (cases "map_results ts 0 results") (simp_all add: search_text_def resultText_def)
  then show ?thesis
    by (simp only: map_results_Inr_iff)
qed

lemma search_text_Inl:
  assumes "search_text ts results = Inl e"
  shows "\<exists>message. e = Error_instance message"
proof -
  have "map_results ts 0 results = Inl e"
    using assms by (simp add: search_text_def resultText_def split: if_splits sum.splits)
  then show ?thesis by (rule map_results_Inl)
qed

lemma search_text_undefined:
  assumes "r \<in> set results" and "r_distance r = None"
  shows "\<exists>message. search_text ts results = Inl (Error_instance message)"
proof -
  have "\<not> (\<forall>r\<in>set results. number_or_null (r_distance r))"
    using assms by force
  then have "\<not> (\<exists>t. search_text ts results = Inr t)"
    by (simp add: search_text_Inr_iff)
  then obtain e where e: "search_text ts results = Inl e"
    by (cases "search_text ts results") auto
  then obtain message where "e = Error_instance message"
    using search_text_Inl by blast
  with e show ?thesis by blast
qed

lemma search_outcome_text:
  "search_text ts results = Inl (Error_instance message) \<Longrightarrow>
     search_outcome ts (Inr results) = Tool_error (js ''Failed to search Skald memos: '' @ message)"
  by (simp add: search_outcome_def)


lemma skald_search_outcome:
  "search (searchParams args) = Inr results \<Longrightarrow>
     outcome (skald_search ts search args) = search_outcome ts (Inr results)"
  by (simp add: skald_search_def Let_def)

lemma skald_search_index_outcome:
  "search (searchParams_index args) = Inr results \<Longrightarrow>
     outcome (skald_search_index ts search args) = search_outcome ts (Inr results)"
  by (simp add: skald_search_index_def Let_def)

lemma format_result_undefined:
  "r_distance result = None \<Longrightarrow>
     format_result ts idx result
       = Inl (Error_instance (js ''Cannot read properties of undefined (reading 'toFixed')''))"
  by (simp add: format_result_def Let_def)

text \<open>
  C9. The formatter of skald-search produces a text exactly when the distance of
  every result is a number or \<open>null\<close>. The guard tests \<open>!== null\<close> alone, so
  when some result has no distance at all the formatter applies \<open>toFixed\<close> to a
  value that is not a number and throws instead of leaving the line out; in both
  versions of the tool the throw ends in the handler's \<open>catch\<close> and the call
  fails under the prefix \<open>Failed to search Skald memos: \<close>.
\<close>

theorem search_formatter_totality:
  "((\<exists>t. search_text ts results = Inr t)
      \<longleftrightarrow> (\<forall>r\<in>set results. number_or_null (r_distance r)))
   \<and> ((\<exists>r\<in>set results. r_distance r = None) \<longrightarrow>
      (\<exists>message. search_text ts results = Inl (Error_instance message)))
   \<and> (search (searchParams args) = Inr results \<and> (\<exists>r\<in>set results. r_distance r = None) \<longrightarrow>
      (\<exists>message. outcome (skald_search ts search args)
         = Tool_error (js ''Failed to search Skald memos: '' @ message)))
   \<and> (search (searchParams_index args_index) = Inr results
       \<and> (\<exists>r\<in>set results. r_distance r = None) \<longrightarrow>
      (\<exists>message. outcome (skald_search_index ts search args_index)
         = Tool_error (js ''Failed to search Skald memos: '' @ message)))
   \<and> (r_distance result = None \<longrightarrow>
      format_result ts idx result
        = Inl (Error_instance (js ''Cannot read properties of undefined (reading 'toFixed')'')))"
proof -
  have b: "\<exists>message. search_text ts results = Inl (Error_instance message)"
    if "\<exists>r\<in>set results. r_distance r = None"
    using that search_text_undefined by blast
  have c: "\<exists>message. outcome (skald_search ts search args)
         = Tool_error (js ''Failed to search Skald memos: '' @ message)"
    if h: "search (searchParams args) = Inr results \<and> (\<exists>r\<in>set results. r_distance r = None)"
  proof -
    obtain message where "search_text ts results = Inl (Error_instance message)"
      using b h by blast
    then have "search_outcome ts (Inr results)
        = Tool_error (js ''Failed to search Skald memos: '' @ message)"
      by (rule search_outcome_text)
    then have "outcome (skald_search ts search args)
        = Tool_error (js ''Failed to search Skald memos: '' @ message)"
      using h skald_search_outcome [of search args results ts] by simp
    then show ?thesis ..
  qed
  have d: "\<exists>message. outcome (skald_search_index ts search args_index)
         = Tool_error (js ''Failed to search Skald memos: '' @ message)"
    if h: "search (searchParams_index args_index) = Inr results
       \<and> (\<exists>r\<in>set results. r_distance r = None)"
  proof -
    obtain message where "search_text ts results = Inl (Error_instance message)"
      using b h by blast
    then have "search_outcome ts (Inr results)
        = Tool_error (js ''Failed to search Skald memos: '' @ message)"
      by (rule search_outcome_text)
    then have "outcome (skald_search_index ts search args_index)
        = Tool_error (js ''Failed to search Skald memos: '' @ message)"
      using h skald_search_index_outcome [of search args_index results ts] by simp
    then show ?thesis ..
  qed
  have b': "(\<exists>r\<in>set results. r_distance r = None) \<longrightarrow>
      (\<exists>message. search_text ts results = Inl (Error_instance message))"
    by (rule impI) (erule b)
  have c': "search (searchParams args) = Inr results
       \<and> (\<exists>r\<in>set results. r_distance r = None) \<longrightarrow>
      (\<exists>message. outcome (skald_search ts search args)
         = Tool_error (js ''Failed to search Skald memos: '' @ message))"
    by (rule impI) (erule c)
  have d': "search (searchParams_index args_index) = Inr results
       \<and> (\<exists>r\<in>set results. r_distance r = None) \<longrightarrow>
      (\<exists>message. outcome (skald_search_index ts search args_index)
         = Tool_error (js ''Failed to search Skald memos: '' @ message))"
    by (rule impI) (erule d)
  have e': "r_distance result = None \<longrightarrow>
      format_result ts idx result
        = Inl (Error_instance (js ''Cannot read properties of undefined (reading 'toFixed')''))"
    by (rule impI) (erule format_result_undefined)
  show ?thesis
    by (rule conjI [OF search_text_Inr_iff conjI [OF b' conjI [OF c' conjI [OF d' e']]]])
qed

theorem search_formatter_totality_witness:
  "(\<exists>t. search_text (\<lambda>x. [])
        [\<lparr>r_title = js ''A'', r_uuid = js ''u-1'', r_summary = js ''s'',
          r_content_snippet = js ''c'', r_distance = Some (JNum (1 / 2))\<rparr>,
         \<lparr>r_title = js ''B'', r_uuid = js ''u-2'', r_summary = js ''s'',
          r_content_snippet = js ''c'', r_distance = Some JNull\<rparr>] = Inr t)
   \<and> (\<exists>message. search_text (\<lambda>x. [])
        [\<lparr>r_title = js ''A'', r_uuid = js ''u-1'', r_summary = js ''s'',
          r_content_snippet = js ''c'', r_distance = Some (JNum (1 / 2))\<rparr>,
         \<lparr>r_title = js ''B'', r_uuid = js ''u-2'', r_summary = js ''s'',
          r_content_snippet = js ''c'', r_distance = None\<rparr>]
        = Inl (Error_instance message))
   \<and> (\<exists>message. outcome (skald_search (\<lambda>x. [])
        (\<lambda>p. Inr [\<lparr>r_title = js ''B'', r_uuid = js ''u-2'', r_summary = js ''s'',
          r_content_snippet = js ''c'', r_distance = None\<rparr>])
        \<lparr>search_query = js ''q'', search_method = js ''chunk_semantic_search'',
         search_limit = 10, search_filters = None\<rparr>)
        = Tool_error (js ''Failed to search Skald memos: '' @ message))"
proof -
  let ?a = "\<lparr>r_title = js ''A'', r_uuid = js ''u-1'', r_summary = js ''s'',
          r_content_snippet = js ''c'', r_distance = Some (JNum (1 / 2))\<rparr>"
  let ?n = "\<lparr>r_title = js ''B'', r_uuid = js ''u-2'', r_summary = js ''s'',
          r_content_snippet = js ''c'', r_distance = Some JNull\<rparr>"
  let ?u = "\<lparr>r_title = js ''B'', r_uuid = js ''u-2'', r_summary = js ''s'',
          r_content_snippet = js ''c'', r_distance = None\<rparr>"
  let ?args = "\<lparr>search_query = js ''q'', search_method = js ''chunk_semantic_search'',
         search_limit = 10, search_filters = None\<rparr>"
  have h1: "\<forall>r\<in>set [?a, ?n]. number_or_null (r_distance r)"
    by simp
  have h2: "\<exists>r\<in>set [?a, ?u]. r_distance r = None"
    by simp
  have h3: "(\<lambda>p::payload. (Inr [?u] :: thrown + search_result list)) (searchParams ?args) = Inr [?u]
      \<and> (\<exists>r\<in>set [?u]. r_distance r = None)"
    by simp
  note 1 = search_formatter_totality [where results = "[?a, ?n]" and ts = "\<lambda>x. []",
      THEN conjunct1, THEN iffD2, OF h1]
  note 2 = search_formatter_totality [where results = "[?a, ?u]" and ts = "\<lambda>x. []",
      THEN conjunct2, THEN conjunct1, THEN mp, OF h2]
  note 3 = search_formatter_totality [where results = "[?u]" and ts = "\<lambda>x. []"
      and search = "\<lambda>p. Inr [?u]" and args = ?args,
      THEN conjunct2, THEN conjunct2, THEN conjunct1, THEN mp, OF h3]
  show ?thesis
    by (rule conjI [OF 1 conjI [OF 2 3]])
qed

section \<open>The text of skald-get-memo\<close>

lemma js_Cons_not_Nil: "js (c # s) @ t \<noteq> []"
  by (simp add: js_def)

lemma chunk_line_not_Nil: "chunk_line ts c \<noteq> []"
  unfolding chunk_line_def by (rule js_Cons_not_Nil)

lemma join_Cons_not_Nil:
  assumes "x \<noteq> []"
  shows "join sep (x # xs) \<noteq> []"
  using assms by (cases xs) simp_all

lemma chunksText_Nil_iff: "chunksText ts m = [] \<longleftrightarrow> m_chunks m = []"
proof (cases "m_chunks m")
  case Nil
  then show ?thesis by (simp add: chunksText_def)
next
  case (Cons c cs)
  then have "chunksText ts m = join nl (chunk_line ts c # map (chunk_line ts) cs)"
    by (simp add: chunksText_def)
  then have "chunksText ts m \<noteq> []"
    using join_Cons_not_Nil [OF chunk_line_not_Nil] by simp
  with Cons show ?thesis by simp
qed

lemma memo_lines_filter:
  "filter (\<lambda>line. line \<noteq> []) (memo_lines ts m) =
     [js ''Memo: '' @ m_title m,
      js ''UUID: '' @ m_uuid m,
      js ''Created: '' @ m_created_at m,
      js ''Updated: '' @ m_updated_at m,
      js ''Summary: '' @ m_summary m,
      js ''Content: '' @ m_content m,
      js ''Tags: '' @ (if tagsText m \<noteq> [] then tagsText m else js ''None''),
      js ''Client Reference ID: '' @ or_else (m_client_reference_id m) (js ''None''),
      js ''Source: '' @ or_else (m_source m) (js ''None''),
      js ''Type: '' @ m_type m,
      js ''Chunks: '' @ decimal (length (m_chunks m))]
     @ (if m_chunks m = [] then [] else [nl @ join nl (map (chunk_line ts) (m_chunks m))])"
proof -
  have l: "\<And>s t. js s @ t = [] \<longleftrightarrow> s = [] \<and> t = []"
    by (simp add: js_def)
  have n: "nl \<noteq> []"
    by (simp add: nl_def)
  show ?thesis
    unfolding memo_lines_def
    by (simp add: l n chunksText_Nil_iff) (simp add: chunksText_def)
qed

lemma tags_none: "m_tags m = [] \<Longrightarrow>
    js ''Tags: '' @ (if tagsText m \<noteq> [] then tagsText m else js ''None'') = js ''Tags: None''"
  by (simp add: tagsText_def js_literal_append)

lemma tags_a_b: "map tag (m_tags m) = [js ''a'', js ''b''] \<Longrightarrow>
    js ''Tags: '' @ (if tagsText m \<noteq> [] then tagsText m else js ''None'') = js ''Tags: a, b''"
  by (simp add: tagsText_def js_literal_append)


lemma show_int_safe:
  "\<bar>i\<bar> \<le> 9007199254740991 \<Longrightarrow>
     show_int ts i = (if i < 0 then js ''-'' @ decimal (nat (- i)) else decimal (nat i))"
  by (simp add: show_int_def)

lemma get_memo_outcome:
  "getMemo (get_memo_id args) (get_id_type args) = Inr m \<Longrightarrow>
     outcome (skald_get_memo ts getMemo args) = Text (memo_text ts m)"
  by (simp add: skald_get_memo_def)

text \<open>
  C8. The text of skald-get-memo is, for every memo, the eleven labelled lines in
  their fixed order (title, uuid, created, updated, summary, content, tags, client
  reference id, source, type, chunk count), joined by newlines, followed, when the
  memo has chunks, by a blank line and one preview line per chunk: the chunk index
  as JavaScript prints the number (all its digits for a safe integer), the first 100
  code units of the chunk content and \<open>...\<close>. When the memo has no
  chunks the preview entry is empty and is dropped, so the text ends with the chunk
  count. An empty tag sequence gives the line \<open>Tags: None\<close>, and the tags
  \<open>a\<close>, \<open>b\<close> give \<open>Tags: a, b\<close>.
\<close>

theorem memo_text_lines:
  "memo_text ts m = join nl
     ([js ''Memo: '' @ m_title m,
       js ''UUID: '' @ m_uuid m,
       js ''Created: '' @ m_created_at m,
       js ''Updated: '' @ m_updated_at m,
       js ''Summary: '' @ m_summary m,
       js ''Content: '' @ m_content m,
       js ''Tags: '' @ (if tagsText m \<noteq> [] then tagsText m else js ''None''),
       js ''Client Reference ID: '' @ or_else (m_client_reference_id m) (js ''None''),
       js ''Source: '' @ or_else (m_source m) (js ''None''),
       js ''Type: '' @ m_type m,
       js ''Chunks: '' @ decimal (length (m_chunks m))]
      @ (if m_chunks m = [] then [] else [nl @ join nl (map (chunk_line ts) (m_chunks m))]))
   \<and> chunk_line ts c = js ''Chunk '' @ show_int ts (chunk_index c) @ js '': ''
        @ take 100 (chunk_content c) @ js ''...''
   \<and> (\<bar>chunk_index c\<bar> \<le> 9007199254740991 \<longrightarrow>
        show_int ts (chunk_index c)
          = (if chunk_index c < 0 then js ''-'' @ decimal (nat (- chunk_index c))
             else decimal (nat (chunk_index c))))
   \<and> (m_tags m = [] \<longrightarrow>
        js ''Tags: '' @ (if tagsText m \<noteq> [] then tagsText m else js ''None'') = js ''Tags: None'')
   \<and> (map tag (m_tags m) = [js ''a'', js ''b''] \<longrightarrow>
        js ''Tags: '' @ (if tagsText m \<noteq> [] then tagsText m else js ''None'') = js ''Tags: a, b'')
   \<and> (getMemo (get_memo_id args) (get_id_type args) = Inr m \<longrightarrow>
        outcome (skald_get_memo ts getMemo args) = Text (memo_text ts m))"
proof -
  have a: "memo_text ts m = join nl
     ([js ''Memo: '' @ m_title m,
       js ''UUID: '' @ m_uuid m,
       js ''Created: '' @ m_created_at m,
       js ''Updated: '' @ m_updated_at m,
       js ''Summary: '' @ m_summary m,
       js ''Content: '' @ m_content m,
       js ''Tags: '' @ (if tagsText m \<noteq> [] then tagsText m else js ''None''),
       js ''Client Reference ID: '' @ or_else (m_client_reference_id m) (js ''None''),
       js ''Source: '' @ or_else (m_source m) (js ''None''),
       js ''Type: '' @ m_type m,
       js ''Chunks: '' @ decimal (length (m_chunks m))]
      @ (if m_chunks m = [] then [] else [nl @ join nl (map (chunk_line ts) (m_chunks m))]))"
    unfolding memo_text_def memo_lines_filter ..
  note b = chunk_line_def [of ts c]
  note i = impI [of "\<bar>chunk_index c\<bar> \<le> 9007199254740991", OF show_int_safe]
  note t1 = impI [of "m_tags m = []", OF tags_none]
  note t2 = impI [of "map tag (m_tags m) = [js ''a'', js ''b'']", OF tags_a_b]
  note g = impI [of "getMemo (get_memo_id args) (get_id_type args) = Inr m", OF get_memo_outcome]
  show ?thesis
    by (rule conjI [OF a conjI [OF b conjI [OF i conjI [OF t1 conjI [OF t2 g]]]]])
qed

theorem memo_text_lines_witness:
  "memo_text (\<lambda>x. [])
      \<lparr>m_uuid = js ''u-1'', m_title = js ''Notes'', m_content = js ''body'',
       m_summary = js ''sum'', m_tags = [\<lparr>tag = js ''a''\<rparr>, \<lparr>tag = js ''b''\<rparr>],
       m_client_reference_id = None, m_source = Some (js ''notion''),
       m_type = js ''document'', m_created_at = js ''2025-01-01'',
       m_updated_at = js ''2025-01-02'',
       m_chunks = [\<lparr>chunk_index = 0, chunk_content = replicate 120 120\<rparr>]\<rparr>
     = join nl
        [js ''Memo: Notes'', js ''UUID: u-1'', js ''Created: 2025-01-01'',
         js ''Updated: 2025-01-02'', js ''Summary: sum'', js ''Content: body'',
         js ''Tags: a, b'', js ''Client Reference ID: None'', js ''Source: notion'',
         js ''Type: document'', js ''Chunks: 1'',
         nl @ js ''Chunk 0: '' @ replicate 100 120 @ js ''...'']
   \<and> memo_text (\<lambda>x. [])
      \<lparr>m_uuid = js ''u-2'', m_title = js ''Empty'', m_content = js ''body'',
       m_summary = js ''sum'', m_tags = [],
       m_client_reference_id = Some (js ''ref-9''), m_source = None,
       m_type = js ''document'', m_created_at = js ''2025-01-01'',
       m_updated_at = js ''2025-01-02'', m_chunks = []\<rparr>
     = join nl
        [js ''Memo: Empty'', js ''UUID: u-2'', js ''Created: 2025-01-01'',
         js ''Updated: 2025-01-02'', js ''Summary: sum'', js ''Content: body'',
         js ''Tags: None'', js ''Client Reference ID: ref-9'', js ''Source: None'',
         js ''Type: document'', js ''Chunks: 0'']
   \<and> show_int (\<lambda>x. []) 0 = js ''0''"
proof -
  let ?m = "\<lparr>m_uuid = js ''u-1'', m_title = js ''Notes'', m_content = js ''body'',
       m_summary = js ''sum'', m_tags = [\<lparr>tag = js ''a''\<rparr>, \<lparr>tag = js ''b''\<rparr>],
       m_client_reference_id = None, m_source = Some (js ''notion''),
       m_type = js ''document'', m_created_at = js ''2025-01-01'',
       m_updated_at = js ''2025-01-02'',
       m_chunks = [\<lparr>chunk_index = 0, chunk_content = replicate 120 120\<rparr>]\<rparr>"
  let ?e = "\<lparr>m_uuid = js ''u-2'', m_title = js ''Empty'', m_content = js ''body'',
       m_summary = js ''sum'', m_tags = [],
       m_client_reference_id = Some (js ''ref-9''), m_source = None,
       m_type = js ''document'', m_created_at = js ''2025-01-01'',
       m_updated_at = js ''2025-01-02'', m_chunks = []\<rparr>"
  have d: "decimal 0 = js ''0''" "decimal 1 = js ''1''" "decimal (Suc 0) = js ''1''"
    by (simp_all add: decimal.simps digit_def js_def)
  have ta: "map tag (m_tags ?m) = [js ''a'', js ''b'']" and te: "m_tags ?e = []"
    by simp_all
  have safe: "\<bar>chunk_index \<lparr>chunk_index = 0, chunk_content = replicate 120 120\<rparr>\<bar>
      \<le> 9007199254740991"
    by simp
  note m1 = memo_text_lines [where m = ?m and ts = "\<lambda>x. []", THEN conjunct1]
  note m3 = memo_text_lines [where m = ?m and ts = "\<lambda>x. []", THEN conjunct2,
      THEN conjunct2, THEN conjunct2, THEN conjunct2, THEN conjunct1, THEN mp, OF ta]
  note e1 = memo_text_lines [where m = ?e and ts = "\<lambda>x. []", THEN conjunct1]
  note e2 = memo_text_lines [where m = ?e and ts = "\<lambda>x. []", THEN conjunct2,
      THEN conjunct2, THEN conjunct2, THEN conjunct1, THEN mp, OF te]
  note s0 = memo_text_lines [where ts = "\<lambda>x. []"
      and c = "\<lparr>chunk_index = 0, chunk_content = replicate 120 120\<rparr>",
      THEN conjunct2, THEN conjunct2, THEN conjunct1, THEN mp, OF safe]
  have 3: "show_int (\<lambda>x. []) 0 = js ''0''"
    using s0 by (simp add: d)
  have 1: "memo_text (\<lambda>x. []) ?m = join nl
        [js ''Memo: Notes'', js ''UUID: u-1'', js ''Created: 2025-01-01'',
         js ''Updated: 2025-01-02'', js ''Summary: sum'', js ''Content: body'',
         js ''Tags: a, b'', js ''Client Reference ID: None'', js ''Source: notion'',
         js ''Type: document'', js ''Chunks: 1'',
         nl @ js ''Chunk 0: '' @ replicate 100 120 @ js ''...'']"
    unfolding m1 m3
    by (simp add: or_else_def chunk_line_def 3 js_literal_append d)
  have 2: "memo_text (\<lambda>x. []) ?e = join nl
        [js ''Memo: Empty'', js ''UUID: u-2'', js ''Created: 2025-01-01'',
         js ''Updated: 2025-01-02'', js ''Summary: sum'', js ''Content: body'',
         js ''Tags: None'', js ''Client Reference ID: ref-9'', js ''Source: None'',
         js ''Type: document'', js ''Chunks: 0'']"
    unfolding e1 e2
    by (simp add: or_else_def d js_literal_append)
  show ?thesis
    by (rule conjI [OF 1 conjI [OF 2 3]])
qed

section \<open>Optional fields in the shaped payloads\<close>

lemma memoData_closed:
  "memoData a =
     [(js ''title'', JStr (create_title a)), (js ''content'', JStr (create_content a))]
     @ (if truthy_string (create_project_id a)
        then [(js ''project_id'', JStr (the (create_project_id a)))] else [])
     @ (if create_metadata a \<noteq> None
        then [(js ''metadata'', JObj (the (create_metadata a)))] else [])
     @ (if truthy_string (create_reference_id a)
        then [(js ''reference_id'', JStr (the (create_reference_id a)))] else [])
     @ (if create_tags a \<noteq> None
        then [(js ''tags'', tags_json (the (create_tags a)))] else [])
     @ (if truthy_string (create_source a)
        then [(js ''source'', JStr (the (create_source a)))] else [])"
  by (cases "truthy_string (create_project_id a)"; cases "create_metadata a = None";
      cases "truthy_string (create_reference_id a)"; cases "create_tags a = None";
      cases "truthy_string (create_source a)"; simp add: memoData_def Let_def)

lemma updateData_closed:
  "updateData a =
     (if update_title a \<noteq> None then [(js ''title'', JStr (the (update_title a)))] else [])
     @ (if update_content a \<noteq> None
        then [(js ''content'', JStr (the (update_content a)))] else [])
     @ (if update_metadata a \<noteq> None
        then [(js ''metadata'', JObj (the (update_metadata a)))] else [])
     @ (if update_client_reference_id a \<noteq> None
        then [(js ''client_reference_id'', JStr (the (update_client_reference_id a)))] else [])
     @ (if update_source a \<noteq> None
        then [(js ''source'', JStr (the (update_source a)))] else [])
     @ (if update_expiration_date a \<noteq> None
        then [(js ''expiration_date'', JStr (the (update_expiration_date a)))] else [])"
  by (cases "update_title a = None"; cases "update_content a = None";
      cases "update_metadata a = None"; cases "update_client_reference_id a = None";
      cases "update_source a = None"; cases "update_expiration_date a = None";
      simp add: updateData_def Let_def)


lemma map_of_optional_other:
  "k \<noteq> k' \<Longrightarrow> map_of ((if c then [(k, v)] else []) @ ps) k' = map_of ps k'"
  "k \<noteq> k' \<Longrightarrow> map_of (if c then [(k, v)] else []) k' = None"
  by simp_all

lemma map_of_optional_same:
  "map_of ps k = None \<Longrightarrow>
     map_of ((if c then [(k, v)] else []) @ ps) k = (if c then Some v else None)"
  "map_of (if c then [(k, v)] else []) k = (if c then Some v else None)"
  by simp_all

lemma truthy_string_the:
  "(if truthy_string s then Some (JStr (the s)) else None)
     = (if s = Some [] then None else map_option JStr s)"
  by (cases s) simp_all

lemma defined_the: "(if s \<noteq> None then Some (f (the s)) else None) = map_option f s"
  by (cases s) simp_all

lemma memoData_facts:
  shows "map_of (memoData a) (js ''title'') = Some (JStr (create_title a))"
    and "map_of (memoData a) (js ''content'') = Some (JStr (create_content a))"
    and "create_project_id a \<noteq> Some [] \<longrightarrow>
           map_of (memoData a) (js ''project_id'') = map_option JStr (create_project_id a)"
    and "map_of (memoData a) (js ''project_id'') = None
           \<or> map_of (memoData a) (js ''project_id'') = map_option JStr (create_project_id a)"
    and "map_of (memoData a) (js ''metadata'') = map_option JObj (create_metadata a)"
    and "create_reference_id a \<noteq> Some [] \<longrightarrow>
           map_of (memoData a) (js ''reference_id'') = map_option JStr (create_reference_id a)"
    and "map_of (memoData a) (js ''reference_id'') = None
           \<or> map_of (memoData a) (js ''reference_id'') = map_option JStr (create_reference_id a)"
    and "map_of (memoData a) (js ''tags'') = map_option tags_json (create_tags a)"
    and "create_source a \<noteq> Some [] \<longrightarrow>
           map_of (memoData a) (js ''source'') = map_option JStr (create_source a)"
    and "map_of (memoData a) (js ''source'') = None
           \<or> map_of (memoData a) (js ''source'') = map_option JStr (create_source a)"
    and "create_project_id a = None \<and> create_metadata a = None \<and> create_reference_id a = None
           \<and> create_tags a = None \<and> create_source a = None \<longrightarrow>
           memoData a = [(js ''title'', JStr (create_title a)),
             (js ''content'', JStr (create_content a))]"
  unfolding memoData_closed
  by (simp_all add: map_of_optional_other map_of_optional_same truthy_string_the defined_the
        del: map_of_append) auto


lemma memoData_keys:
  "set (map fst (memoData a))
     \<subseteq> {js ''title'', js ''content'', js ''project_id'', js ''metadata'',
         js ''reference_id'', js ''tags'', js ''source''}"
  unfolding memoData_closed by (auto simp del: js_eq_iff)

lemma updateData_facts:
  shows "map_of (updateData a) (js ''title'') = map_option JStr (update_title a)"
    and "map_of (updateData a) (js ''content'') = map_option JStr (update_content a)"
    and "map_of (updateData a) (js ''metadata'') = map_option JObj (update_metadata a)"
    and "map_of (updateData a) (js ''client_reference_id'')
           = map_option JStr (update_client_reference_id a)"
    and "map_of (updateData a) (js ''source'') = map_option JStr (update_source a)"
    and "map_of (updateData a) (js ''expiration_date'')
           = map_option JStr (update_expiration_date a)"
    and "update_title a = None \<and> update_content a = None \<and> update_metadata a = None
           \<and> update_client_reference_id a = None \<and> update_source a = None
           \<and> update_expiration_date a = None \<longrightarrow> updateData a = []"
  unfolding updateData_closed
  by (simp_all add: map_of_optional_other map_of_optional_same defined_the
        del: map_of_append) auto

lemma updateData_keys:
  "set (map fst (updateData a))
     \<subseteq> {js ''title'', js ''content'', js ''metadata'', js ''client_reference_id'',
         js ''source'', js ''expiration_date''}"
  unfolding updateData_closed by (auto simp del: js_eq_iff)

lemma chatParams_facts:
  shows "map_of (chatParams a) (js ''query'') = Some (JStr (chat_query a))"
    and "chat_project_id a \<noteq> Some [] \<longrightarrow>
           map_of (chatParams a) (js ''project_id'') = map_option JStr (chat_project_id a)"
    and "map_of (chatParams a) (js ''project_id'') = None
           \<or> map_of (chatParams a) (js ''project_id'') = map_option JStr (chat_project_id a)"
    and "map_of (chatParams a) (js ''filters'') = map_option filters_json (chat_filters a)"
    and "set (map fst (chatParams a)) \<subseteq> {js ''query'', js ''project_id'', js ''filters''}"
    and "chat_project_id a = None \<and> chat_filters a = None \<longrightarrow>
           chatParams a = [(js ''query'', JStr (chat_query a))]"
  by (cases "chat_project_id a"; cases "chat_filters a"; simp add: chatParams_def Let_def)+

lemma chatParams_index_facts:
  shows "map_of (chatParams_index a) (js ''query'') = Some (JStr (ichat_query a))"
    and "ichat_project_id a \<noteq> Some [] \<longrightarrow>
           map_of (chatParams_index a) (js ''project_id'') = map_option JStr (ichat_project_id a)"
    and "map_of (chatParams_index a) (js ''project_id'') = None
           \<or> map_of (chatParams_index a) (js ''project_id'')
               = map_option JStr (ichat_project_id a)"
    and "set (map fst (chatParams_index a)) \<subseteq> {js ''query'', js ''project_id''}"
    and "ichat_project_id a = None \<longrightarrow>
           chatParams_index a = [(js ''query'', JStr (ichat_query a))]"
  by (cases "ichat_project_id a"; simp add: chatParams_index_def Let_def)+

lemma searchParams_facts:
  shows "map_of (searchParams a) (js ''query'') = Some (JStr (search_query a))"
    and "map_of (searchParams a) (js ''search_method'') = Some (JStr (search_method a))"
    and "map_of (searchParams a) (js ''limit'') = Some (JNum (search_limit a))"
    and "map_of (searchParams a) (js ''filters'') = map_option filters_json (search_filters a)"
    and "set (map fst (searchParams a))
           \<subseteq> {js ''query'', js ''search_method'', js ''limit'', js ''filters''}"
    and "search_filters a = None \<longrightarrow>
           searchParams a = [(js ''query'', JStr (search_query a)),
             (js ''search_method'', JStr (search_method a)),
             (js ''limit'', JNum (search_limit a))]"
  by (cases "search_filters a"; simp add: searchParams_def Let_def)+

lemma searchParams_index_facts:
  shows "map_of (searchParams_index a) (js ''query'') = Some (JStr (isearch_query a))"
    and "map_of (searchParams_index a) (js ''search_method'') = Some (JStr (isearch_method a))"
    and "map_of (searchParams_index a) (js ''limit'') = Some (JNum (isearch_limit a))"
    and "map_of (searchParams_index a) (js ''tags'') = map_option tags_json (isearch_tags a)"
    and "set (map fst (searchParams_index a))
           \<subseteq> {js ''query'', js ''search_method'', js ''limit'', js ''tags''}"
    and "isearch_tags a = None \<longrightarrow>
           searchParams_index a = [(js ''query'', JStr (isearch_query a)),
             (js ''search_method'', JStr (isearch_method a)),
             (js ''limit'', JNum (isearch_limit a))]"
  by (cases "isearch_tags a"; simp add: searchParams_index_def Let_def)+


lemma search_limit_default_forwarded:
  assumes "map_of props (js ''limit'') = None \<and> search_schema (JObj props) = Inr s"
  shows "map_of (searchParams s) (js ''limit'') = Some (JNum 10)"
proof -
  have "search_limit s = 10"
    using assms limit_default by blast
  then show ?thesis
    by (simp only: searchParams_limit)
qed

text \<open>
  C1, as the code has it. For skald-chat, skald-search, skald-create-memo and
  skald-update-memo the shaped payload always holds the required fields, and it holds
  a key for an optional parameter only if the caller supplied that parameter, with the
  value supplied: an optional parameter left out is never forwarded, under any
  placeholder. The one exception is the limit of skald-search, which is always
  forwarded: the schema fills in 10 when the caller leaves it out. So leaving out
  every optional field gives exactly the required fields, and for skald-search the
  limit beside them. Every supplied filters, tags or metadata value and every supplied
  string that is not empty is forwarded, and skald-update-memo forwards every supplied
  field, the empty string included. What skald-chat and skald-create-memo do with an
  optional string supplied empty is not part of this statement.
\<close>

theorem shaped_payload_keys:
  "(map_of (chatParams c) (js ''query'') = Some (JStr (chat_query c))
     \<and> (chat_project_id c \<noteq> Some [] \<longrightarrow>
           map_of (chatParams c) (js ''project_id'') = map_option JStr (chat_project_id c))
     \<and> (map_of (chatParams c) (js ''project_id'') = None
           \<or> map_of (chatParams c) (js ''project_id'') = map_option JStr (chat_project_id c))
     \<and> map_of (chatParams c) (js ''filters'') = map_option filters_json (chat_filters c)
     \<and> set (map fst (chatParams c)) \<subseteq> {js ''query'', js ''project_id'', js ''filters''}
     \<and> (chat_project_id c = None \<and> chat_filters c = None \<longrightarrow>
           chatParams c = [(js ''query'', JStr (chat_query c))]))
   \<and> (map_of (chatParams_index ci) (js ''query'') = Some (JStr (ichat_query ci))
     \<and> (ichat_project_id ci \<noteq> Some [] \<longrightarrow>
           map_of (chatParams_index ci) (js ''project_id'')
             = map_option JStr (ichat_project_id ci))
     \<and> (map_of (chatParams_index ci) (js ''project_id'') = None
           \<or> map_of (chatParams_index ci) (js ''project_id'')
               = map_option JStr (ichat_project_id ci))
     \<and> set (map fst (chatParams_index ci)) \<subseteq> {js ''query'', js ''project_id''}
     \<and> (ichat_project_id ci = None \<longrightarrow>
           chatParams_index ci = [(js ''query'', JStr (ichat_query ci))]))
   \<and> (map_of (searchParams s) (js ''query'') = Some (JStr (search_query s))
     \<and> map_of (searchParams s) (js ''search_method'') = Some (JStr (search_method s))
     \<and> map_of (searchParams s) (js ''limit'') = Some (JNum (search_limit s))
     \<and> map_of (searchParams s) (js ''filters'') = map_option filters_json (search_filters s)
     \<and> set (map fst (searchParams s))
           \<subseteq> {js ''query'', js ''search_method'', js ''limit'', js ''filters''}
     \<and> (search_filters s = None \<longrightarrow>
           searchParams s = [(js ''query'', JStr (search_query s)),
             (js ''search_method'', JStr (search_method s)),
             (js ''limit'', JNum (search_limit s))]))
   \<and> (map_of (searchParams_index si) (js ''query'') = Some (JStr (isearch_query si))
     \<and> map_of (searchParams_index si) (js ''search_method'') = Some (JStr (isearch_method si))
     \<and> map_of (searchParams_index si) (js ''limit'') = Some (JNum (isearch_limit si))
     \<and> map_of (searchParams_index si) (js ''tags'') = map_option tags_json (isearch_tags si)
     \<and> set (map fst (searchParams_index si))
           \<subseteq> {js ''query'', js ''search_method'', js ''limit'', js ''tags''}
     \<and> (isearch_tags si = None \<longrightarrow>
           searchParams_index si = [(js ''query'', JStr (isearch_query si)),
             (js ''search_method'', JStr (isearch_method si)),
             (js ''limit'', JNum (isearch_limit si))]))
   \<and> (map_of (memoData m) (js ''title'') = Some (JStr (create_title m))
     \<and> map_of (memoData m) (js ''content'') = Some (JStr (create_content m))
     \<and> (create_project_id m \<noteq> Some [] \<longrightarrow>
           map_of (memoData m) (js ''project_id'') = map_option JStr (create_project_id m))
     \<and> (map_of (memoData m) (js ''project_id'') = None
           \<or> map_of (memoData m) (js ''project_id'') = map_option JStr (create_project_id m))
     \<and> map_of (memoData m) (js ''metadata'') = map_option JObj (create_metadata m)
     \<and> (create_reference_id m \<noteq> Some [] \<longrightarrow>
           map_of (memoData m) (js ''reference_id'') = map_option JStr (create_reference_id m))
     \<and> (map_of (memoData m) (js ''reference_id'') = None
           \<or> map_of (memoData m) (js ''reference_id'') = map_option JStr (create_reference_id m))
     \<and> map_of (memoData m) (js ''tags'') = map_option tags_json (create_tags m)
     \<and> (create_source m \<noteq> Some [] \<longrightarrow>
           map_of (memoData m) (js ''source'') = map_option JStr (create_source m))
     \<and> (map_of (memoData m) (js ''source'') = None
           \<or> map_of (memoData m) (js ''source'') = map_option JStr (create_source m))
     \<and> (create_project_id m = None \<and> create_metadata m = None \<and> create_reference_id m = None
           \<and> create_tags m = None \<and> create_source m = None \<longrightarrow>
           memoData m = [(js ''title'', JStr (create_title m)),
             (js ''content'', JStr (create_content m))])
     \<and> set (map fst (memoData m))
           \<subseteq> {js ''title'', js ''content'', js ''project_id'', js ''metadata'',
               js ''reference_id'', js ''tags'', js ''source''})
   \<and> (map_of (updateData u) (js ''title'') = map_option JStr (update_title u)
     \<and> map_of (updateData u) (js ''content'') = map_option JStr (update_content u)
     \<and> map_of (updateData u) (js ''metadata'') = map_option JObj (update_metadata u)
     \<and> map_of (updateData u) (js ''client_reference_id'')
           = map_option JStr (update_client_reference_id u)
     \<and> map_of (updateData u) (js ''source'') = map_option JStr (update_source u)
     \<and> map_of (updateData u) (js ''expiration_date'')
           = map_option JStr (update_expiration_date u)
     \<and> (update_title u = None \<and> update_content u = None \<and> update_metadata u = None
           \<and> update_client_reference_id u = None \<and> update_source u = None
           \<and> update_expiration_date u = None \<longrightarrow> updateData u = [])
     \<and> set (map fst (updateData u))
           \<subseteq> {js ''title'', js ''content'', js ''metadata'', js ''client_reference_id'',
               js ''source'', js ''expiration_date''})
   \<and> (map_of props (js ''limit'') = None \<and> search_schema (JObj props) = Inr s \<longrightarrow>
           map_of (searchParams s) (js ''limit'') = Some (JNum 10))"
proof -
  have g1: "(map_of (chatParams c) (js ''query'') = Some (JStr (chat_query c))
     \<and> (chat_project_id c \<noteq> Some [] \<longrightarrow>
           map_of (chatParams c) (js ''project_id'') = map_option JStr (chat_project_id c))
     \<and> (map_of (chatParams c) (js ''project_id'') = None
           \<or> map_of (chatParams c) (js ''project_id'') = map_option JStr (chat_project_id c))
     \<and> map_of (chatParams c) (js ''filters'') = map_option filters_json (chat_filters c)
     \<and> set (map fst (chatParams c)) \<subseteq> {js ''query'', js ''project_id'', js ''filters''}
     \<and> (chat_project_id c = None \<and> chat_filters c = None \<longrightarrow>
           chatParams c = [(js ''query'', JStr (chat_query c))]))"
    by (intro conjI) (rule chatParams_facts)+
  have g2: "(map_of (chatParams_index ci) (js ''query'') = Some (JStr (ichat_query ci))
     \<and> (ichat_project_id ci \<noteq> Some [] \<longrightarrow>
           map_of (chatParams_index ci) (js ''project_id'')
             = map_option JStr (ichat_project_id ci))
     \<and> (map_of (chatParams_index ci) (js ''project_id'') = None
           \<or> map_of (chatParams_index ci) (js ''project_id'')
               = map_option JStr (ichat_project_id ci))
     \<and> set (map fst (chatParams_index ci)) \<subseteq> {js ''query'', js ''project_id''}
     \<and> (ichat_project_id ci = None \<longrightarrow>
           chatParams_index ci = [(js ''query'', JStr (ichat_query ci))]))"
    by (intro conjI) (rule chatParams_index_facts)+
  have g3: "(map_of (searchParams s) (js ''query'') = Some (JStr (search_query s))
     \<and> map_of (searchParams s) (js ''search_method'') = Some (JStr (search_method s))
     \<and> map_of (searchParams s) (js ''limit'') = Some (JNum (search_limit s))
     \<and> map_of (searchParams s) (js ''filters'') = map_option filters_json (search_filters s)
     \<and> set (map fst (searchParams s))
           \<subseteq> {js ''query'', js ''search_method'', js ''limit'', js ''filters''}
     \<and> (search_filters s = None \<longrightarrow>
           searchParams s = [(js ''query'', JStr (search_query s)),
             (js ''search_method'', JStr (search_method s)),
             (js ''limit'', JNum (search_limit s))]))"
    by (intro conjI) (rule searchParams_facts)+
  have g4: "(map_of (searchParams_index si) (js ''query'') = Some (JStr (isearch_query si))
     \<and> map_of (searchParams_index si) (js ''search_method'') = Some (JStr (isearch_method si))
     \<and> map_of (searchParams_index si) (js ''limit'') = Some (JNum (isearch_limit si))
     \<and> map_of (searchParams_index si) (js ''tags'') = map_option tags_json (isearch_tags si)
     \<and> set (map fst (searchParams_index si))
           \<subseteq> {js ''query'', js ''search_method'', js ''limit'', js ''tags''}
     \<and> (isearch_tags si = None \<longrightarrow>
           searchParams_index si = [(js ''query'', JStr (isearch_query si)),
             (js ''search_method'', JStr (isearch_method si)),
             (js ''limit'', JNum (isearch_limit si))]))"
    by (intro conjI) (rule searchParams_index_facts)+
  have g5: "(map_of (memoData m) (js ''title'') = Some (JStr (create_title m))
     \<and> map_of (memoData m) (js ''content'') = Some (JStr (create_content m))
     \<and> (create_project_id m \<noteq> Some [] \<longrightarrow>
           map_of (memoData m) (js ''project_id'') = map_option JStr (create_project_id m))
     \<and> (map_of (memoData m) (js ''project_id'') = None
           \<or> map_of (memoData m) (js ''project_id'') = map_option JStr (create_project_id m))
     \<and> map_of (memoData m) (js ''metadata'') = map_option JObj (create_metadata m)
     \<and> (create_reference_id m \<noteq> Some [] \<longrightarrow>
           map_of (memoData m) (js ''reference_id'') = map_option JStr (create_reference_id m))
     \<and> (map_of (memoData m) (js ''reference_id'') = None
           \<or> map_of (memoData m) (js ''reference_id'') = map_option JStr (create_reference_id m))
     \<and> map_of (memoData m) (js ''tags'') = map_option tags_json (create_tags m)
     \<and> (create_source m \<noteq> Some [] \<longrightarrow>
           map_of (memoData m) (js ''source'') = map_option JStr (create_source m))
     \<and> (map_of (memoData m) (js ''source'') = None
           \<or> map_of (memoData m) (js ''source'') = map_option JStr (create_source m))
     \<and> (create_project_id m = None \<and> create_metadata m = None \<and> create_reference_id m = None
           \<and> create_tags m = None \<and> create_source m = None \<longrightarrow>
           memoData m = [(js ''title'', JStr (create_title m)),
             (js ''content'', JStr (create_content m))])
     \<and> set (map fst (memoData m))
           \<subseteq> {js ''title'', js ''content'', js ''project_id'', js ''metadata'',
               js ''reference_id'', js ''tags'', js ''source''})"
    by (intro conjI) (rule memoData_facts memoData_keys)+
  have g6: "(map_of (updateData u) (js ''title'') = map_option JStr (update_title u)
     \<and> map_of (updateData u) (js ''content'') = map_option JStr (update_content u)
     \<and> map_of (updateData u) (js ''metadata'') = map_option JObj (update_metadata u)
     \<and> map_of (updateData u) (js ''client_reference_id'')
           = map_option JStr (update_client_reference_id u)
     \<and> map_of (updateData u) (js ''source'') = map_option JStr (update_source u)
     \<and> map_of (updateData u) (js ''expiration_date'')
           = map_option JStr (update_expiration_date u)
     \<and> (update_title u = None \<and> update_content u = None \<and> update_metadata u = None
           \<and> update_client_reference_id u = None \<and> update_source u = None
           \<and> update_expiration_date u = None \<longrightarrow> updateData u = [])
     \<and> set (map fst (updateData u))
           \<subseteq> {js ''title'', js ''content'', js ''metadata'', js ''client_reference_id'',
               js ''source'', js ''expiration_date''})"
    by (intro conjI) (rule updateData_facts updateData_keys)+
  have g7: "(map_of props (js ''limit'') = None \<and> search_schema (JObj props) = Inr s \<longrightarrow>
           map_of (searchParams s) (js ''limit'') = Some (JNum 10))"
    by (rule impI) (erule search_limit_default_forwarded)
  show ?thesis
    by (rule conjI [OF g1 conjI [OF g2 conjI [OF g3 conjI [OF g4 conjI [OF g5 conjI [OF g6 g7]]]]]])
qed


text \<open>
  C1 as stated fails on the code: a project\_id or source supplied as the empty string
  is a defined value and is not forwarded by skald-chat and skald-create-memo, and a
  skald-search call that leaves out the limit reaches the backend with the key limit.
\<close>

theorem shaped_payload_counterexample:
  "chatParams_index \<lparr>ichat_query = js ''q'', ichat_project_id = Some []\<rparr>
     = [(js ''query'', JStr (js ''q''))]
   \<and> chatParams \<lparr>chat_query = js ''q'', chat_project_id = Some [], chat_filters = None\<rparr>
     = [(js ''query'', JStr (js ''q''))]
   \<and> memoData \<lparr>create_title = js ''t'', create_content = js ''c'', create_project_id = None,
        create_metadata = None, create_reference_id = None, create_tags = None,
        create_source = Some []\<rparr>
     = [(js ''title'', JStr (js ''t'')), (js ''content'', JStr (js ''c''))]
   \<and> backend_calls (skald_search_tool (\<lambda>x. []) (\<lambda>p. Inr [])
        (JObj [(js ''query'', JStr (js ''docs'')),
               (js ''search_method'', JStr (js ''chunk_semantic_search''))]))
     = [Search [(js ''query'', JStr (js ''docs'')),
                (js ''search_method'', JStr (js ''chunk_semantic_search'')),
                (js ''limit'', JNum 10)]]"
proof -
  have 1: "chatParams_index \<lparr>ichat_query = js ''q'', ichat_project_id = Some []\<rparr>
     = [(js ''query'', JStr (js ''q''))]"
    by (simp add: chatParams_index_def)
  have 2: "chatParams \<lparr>chat_query = js ''q'', chat_project_id = Some [], chat_filters = None\<rparr>
     = [(js ''query'', JStr (js ''q''))]"
    by (simp add: chatParams_def)
  have 3: "memoData \<lparr>create_title = js ''t'', create_content = js ''c'',
        create_project_id = None, create_metadata = None, create_reference_id = None,
        create_tags = None, create_source = Some []\<rparr>
     = [(js ''title'', JStr (js ''t'')), (js ''content'', JStr (js ''c''))]"
    by (simp add: memoData_def)
  have "search_schema (JObj [(js ''query'', JStr (js ''docs'')),
               (js ''search_method'', JStr (js ''chunk_semantic_search''))])
     = Inr \<lparr>search_query = js ''docs'', search_method = js ''chunk_semantic_search'',
        search_limit = 10, search_filters = None\<rparr>"
    by (simp add: search_methods_def z_default_def filterSchema_def z_optional_def at_path_def
        Let_def)
  then have 4: "backend_calls (skald_search_tool (\<lambda>x. []) (\<lambda>p. Inr [])
        (JObj [(js ''query'', JStr (js ''docs'')),
               (js ''search_method'', JStr (js ''chunk_semantic_search''))]))
     = [Search [(js ''query'', JStr (js ''docs'')),
                (js ''search_method'', JStr (js ''chunk_semantic_search'')),
                (js ''limit'', JNum 10)]]"
    unfolding skald_search_tool_def
    by (simp only: run_tool_accepted) (simp add: skald_search_def searchParams_def Let_def)
  show ?thesis
    by (rule conjI [OF 1 conjI [OF 2 conjI [OF 3 4]]])
qed

theorem shaped_payload_keys_witness:
  "chatParams \<lparr>chat_query = js ''q'', chat_project_id = None, chat_filters = None\<rparr>
     = [(js ''query'', JStr (js ''q''))]
   \<and> map_of (chatParams \<lparr>chat_query = js ''q'', chat_project_id = Some (js ''p-1''),
         chat_filters = None\<rparr>) (js ''project_id'') = Some (JStr (js ''p-1''))
   \<and> chatParams_index \<lparr>ichat_query = js ''q'', ichat_project_id = None\<rparr>
     = [(js ''query'', JStr (js ''q''))]
   \<and> searchParams \<lparr>search_query = js ''docs'', search_method = js ''chunk_semantic_search'',
        search_limit = 10, search_filters = None\<rparr>
     = [(js ''query'', JStr (js ''docs'')),
        (js ''search_method'', JStr (js ''chunk_semantic_search'')),
        (js ''limit'', JNum 10)]
   \<and> searchParams_index \<lparr>isearch_query = js ''docs'', isearch_method = js ''title_contains'',
        isearch_limit = 5, isearch_tags = None\<rparr>
     = [(js ''query'', JStr (js ''docs'')),
        (js ''search_method'', JStr (js ''title_contains'')),
        (js ''limit'', JNum 5)]
   \<and> memoData \<lparr>create_title = js ''t'', create_content = js ''c'', create_project_id = None,
        create_metadata = None, create_reference_id = None, create_tags = None,
        create_source = None\<rparr>
     = [(js ''title'', JStr (js ''t'')), (js ''content'', JStr (js ''c''))]
   \<and> map_of (memoData \<lparr>create_title = js ''t'', create_content = js ''c'',
        create_project_id = None, create_metadata = None, create_reference_id = None,
        create_tags = None, create_source = Some (js ''notion'')\<rparr>) (js ''source'')
     = Some (JStr (js ''notion''))
   \<and> updateData \<lparr>update_memo_id = js ''m-1'', update_id_type = Memo_uuid,
        update_title = None, update_content = None, update_metadata = None,
        update_client_reference_id = None, update_source = None,
        update_expiration_date = None\<rparr> = []
   \<and> map_of (updateData \<lparr>update_memo_id = js ''m-1'', update_id_type = Memo_uuid,
        update_title = None, update_content = None, update_metadata = None,
        update_client_reference_id = None, update_source = Some [],
        update_expiration_date = None\<rparr>) (js ''source'') = Some (JStr [])
   \<and> map_of (searchParams \<lparr>search_query = js ''docs'',
        search_method = js ''chunk_semantic_search'', search_limit = 10,
        search_filters = None\<rparr>) (js ''limit'') = Some (JNum 10)"
proof -
  let ?c0 = "\<lparr>chat_query = js ''q'', chat_project_id = None, chat_filters = None\<rparr>"
  let ?c1 = "\<lparr>chat_query = js ''q'', chat_project_id = Some (js ''p-1''),
         chat_filters = None\<rparr>"
  let ?ci = "\<lparr>ichat_query = js ''q'', ichat_project_id = None\<rparr>"
  let ?s = "\<lparr>search_query = js ''docs'', search_method = js ''chunk_semantic_search'',
        search_limit = 10, search_filters = None\<rparr>"
  let ?si = "\<lparr>isearch_query = js ''docs'', isearch_method = js ''title_contains'',
        isearch_limit = 5, isearch_tags = None\<rparr>"
  let ?m0 = "\<lparr>create_title = js ''t'', create_content = js ''c'', create_project_id = None,
        create_metadata = None, create_reference_id = None, create_tags = None,
        create_source = None\<rparr>"
  let ?m1 = "\<lparr>create_title = js ''t'', create_content = js ''c'',
        create_project_id = None, create_metadata = None, create_reference_id = None,
        create_tags = None, create_source = Some (js ''notion'')\<rparr>"
  let ?u0 = "\<lparr>update_memo_id = js ''m-1'', update_id_type = Memo_uuid,
        update_title = None, update_content = None, update_metadata = None,
        update_client_reference_id = None, update_source = None,
        update_expiration_date = None\<rparr>"
  let ?u1 = "\<lparr>update_memo_id = js ''m-1'', update_id_type = Memo_uuid,
        update_title = None, update_content = None, update_metadata = None,
        update_client_reference_id = None, update_source = Some [],
        update_expiration_date = None\<rparr>"
  note a = shaped_payload_keys [where c = ?c0 and ci = ?ci and s = ?s and si = ?si
      and m = ?m0 and u = ?u0 and props = "[]"]
  note b = shaped_payload_keys [where c = ?c1 and ci = ?ci and s = ?s and si = ?si
      and m = ?m1 and u = ?u1 and props = "[]"]
  have 1: "chatParams ?c0 = [(js ''query'', JStr (js ''q''))]"
    using a [THEN conjunct1] by simp
  have 2: "map_of (chatParams ?c1) (js ''project_id'') = Some (JStr (js ''p-1''))"
    using b [THEN conjunct1] by simp
  have 3: "chatParams_index ?ci = [(js ''query'', JStr (js ''q''))]"
    using a [THEN conjunct2, THEN conjunct1] by simp
  have 4: "searchParams ?s = [(js ''query'', JStr (js ''docs'')),
        (js ''search_method'', JStr (js ''chunk_semantic_search'')),
        (js ''limit'', JNum 10)]"
    using a [THEN conjunct2, THEN conjunct2, THEN conjunct1] by simp
  have 5: "searchParams_index ?si = [(js ''query'', JStr (js ''docs'')),
        (js ''search_method'', JStr (js ''title_contains'')),
        (js ''limit'', JNum 5)]"
    using a [THEN conjunct2, THEN conjunct2, THEN conjunct2, THEN conjunct1] by simp
  have 6: "memoData ?m0 = [(js ''title'', JStr (js ''t'')), (js ''content'', JStr (js ''c''))]"
    using a [THEN conjunct2, THEN conjunct2, THEN conjunct2, THEN conjunct2, THEN conjunct1]
    by simp
  have 7: "map_of (memoData ?m1) (js ''source'') = Some (JStr (js ''notion''))"
    using b [THEN conjunct2, THEN conjunct2, THEN conjunct2, THEN conjunct2, THEN conjunct1]
    by simp
  have 8: "updateData ?u0 = []"
    using a [THEN conjunct2, THEN conjunct2, THEN conjunct2, THEN conjunct2, THEN conjunct2,
        THEN conjunct1]
    by simp
  have 9: "map_of (updateData ?u1) (js ''source'') = Some (JStr [])"
    using b [THEN conjunct2, THEN conjunct2, THEN conjunct2, THEN conjunct2, THEN conjunct2,
        THEN conjunct1]
    by simp
  have h: "map_of [(js ''query'', JStr (js ''docs'')),
        (js ''search_method'', JStr (js ''chunk_semantic_search''))] (js ''limit'') = None
      \<and> search_schema (JObj [(js ''query'', JStr (js ''docs'')),
        (js ''search_method'', JStr (js ''chunk_semantic_search''))]) = Inr ?s"
    by (simp add: search_methods_def z_default_def filterSchema_def z_optional_def at_path_def
        Let_def)
  note 10 = shaped_payload_keys [where c = ?c0 and ci = ?ci and s = ?s and si = ?si
      and m = ?m0 and u = ?u0
      and props = "[(js ''query'', JStr (js ''docs'')),
        (js ''search_method'', JStr (js ''chunk_semantic_search''))]",
      THEN conjunct2, THEN conjunct2, THEN conjunct2, THEN conjunct2, THEN conjunct2,
      THEN conjunct2, THEN mp, OF h]
  show ?thesis
    by (rule conjI [OF 1 conjI [OF 2 conjI [OF 3 conjI [OF 4 conjI [OF 5 conjI [OF 6
        conjI [OF 7 conjI [OF 8 conjI [OF 9 10]]]]]]]]])
qed

end
